theory Spec2Isabelle
  imports Complex_Main "HOL-Library.Sublist"
begin

section \<open>Data model\<close>

text \<open>
  The services of InfluencerSphere pass Firestore documents around as Python dictionaries and
  read them with \<^verbatim>\<open>d.get(key)\<close> and \<^verbatim>\<open>d.get(key, default)\<close>. A document is modelled as a
  record with one optional field for every key the services read or write or the response
  schema asks for; \<open>None\<close> is the absent key. Fields carry the type the schema gives them: text is \<open>string\<close>, a follower count
  is an \<open>int\<close>, and a Python float (engagement rate, score, threshold, clock reading) is a
  rational number, so comparisons are exact and arithmetic does not round. The keys
  \<^verbatim>\<open>id\<close>, \<^verbatim>\<open>value\<close>, \<^verbatim>\<open>niche\<close> (of an alert) and \<^verbatim>\<open>data\<close> are the fields \<open>doc_id\<close>, \<open>alert_value\<close>,
  \<open>alert_niche\<close> and \<open>doc_data\<close>.
\<close>

record document =
  doc_id :: "string option"
  username :: "string option"
  bio :: "string option"
  niche_label :: "string option"
  average_engagement_rate :: "rat option"
  follower_count :: "int option"
  Follower_Growth_Rate :: "rat option"
  Average_Engagement_Rate :: "rat option"
  market_score :: "rat option"
  market_tier :: "string option"
  user_id :: "string option"
  condition_type :: "string option"
  alert_value :: "rat option"
  alert_niche :: "string option"
  is_active :: "bool option"
  created_at :: "rat option"
  doc_data :: "string option"
  mock_field :: "string option"
  platform_id :: "string option"
  platform :: "string option"
  niche_tags :: "string list option"
  engagement_rate :: "rat option"
  last_updated :: "string option"

definition empty_document :: document where
  "empty_document = \<lparr>doc_id = None, username = None, bio = None, niche_label = None,
     average_engagement_rate = None, follower_count = None, Follower_Growth_Rate = None,
     Average_Engagement_Rate = None, market_score = None, market_tier = None, user_id = None,
     condition_type = None, alert_value = None, alert_niche = None, is_active = None,
     created_at = None, doc_data = None, mock_field = None, platform_id = None,
     platform = None, niche_tags = None, engagement_rate = None, last_updated = None\<rparr>"

text \<open>Python truthiness of an optional string and of an optional number.\<close>

fun truthy_str :: "string option \<Rightarrow> bool" where
  "truthy_str None = False"
| "truthy_str (Some s) = (s \<noteq> [])"

fun truthy_num :: "rat option \<Rightarrow> bool" where
  "truthy_num None = False"
| "truthy_num (Some x) = (x \<noteq> 0)"

text \<open>\<^verbatim>\<open>d.get(key, default)\<close>.\<close>

fun get_default :: "'a option \<Rightarrow> 'a \<Rightarrow> 'a" where
  "get_default None d = d"
| "get_default (Some v) d = v"

text \<open>
  Exceptions are values: the exception of the private path helper, the \<^verbatim>\<open>KeyError\<close> of
  \<^verbatim>\<open>p['id']\<close>, the rejection of a request whose parameters violate their \<^verbatim>\<open>Query\<close>
  bounds, and an \<^verbatim>\<open>HTTPException\<close> with its status code.
\<close>

datatype error =
    AuthenticationRequired
  | KeyError
  | RequestValidationError
  | HTTPException nat

section \<open>firestore\_service.py\<close>

text \<open>
  A document snapshot has an id, an existence flag and its data. The client is
  \<^verbatim>\<open>MockFirestoreClient\<close>: what a collection streams, what a document reference returns and
  the id given to an added document are fields of the client, so that a collection can hold
  any documents; \<open>mock_client\<close> below gives the fixed values of the source. Writes of the mock
  change nothing and only report the reference they were called on; \<open>calls\<close> records every
  operation the client has served, in order.
\<close>

record snapshot =
  snap_id :: string
  snap_exists :: bool
  snap_data :: document

datatype call =
    Stream string
  | Get string
  | Add string
  | Set string bool
  | Delete string

record MockFirestoreClient =
  coll_stream :: "string \<Rightarrow> snapshot list"
  doc_get :: "string \<Rightarrow> snapshot"
  coll_add :: "string \<Rightarrow> document \<Rightarrow> string"
  calls :: "call list"

definition last_segment :: "string \<Rightarrow> string" where
  "last_segment ref = rev (takeWhile (\<lambda>c. c \<noteq> CHR ''/'') (rev ref))"

definition MockDocumentSnapshot :: "string \<Rightarrow> document \<Rightarrow> snapshot" where
  "MockDocumentSnapshot ref d = \<lparr>snap_id = last_segment ref, snap_exists = True, snap_data = d\<rparr>"

fun string_of_nat :: "nat \<Rightarrow> string" where
  "string_of_nat n =
     (if n < 10 then [''0123456789'' ! n]
      else string_of_nat (n div 10) @ [''0123456789'' ! (n mod 10)])"

declare string_of_nat.simps [simp del]

definition doc_len :: "document \<Rightarrow> nat" where
  "doc_len d = length (filter (\<lambda>b. b)
     [doc_id d \<noteq> None, username d \<noteq> None, bio d \<noteq> None, niche_label d \<noteq> None,
      average_engagement_rate d \<noteq> None, follower_count d \<noteq> None,
      Follower_Growth_Rate d \<noteq> None, Average_Engagement_Rate d \<noteq> None,
      market_score d \<noteq> None, market_tier d \<noteq> None, user_id d \<noteq> None,
      condition_type d \<noteq> None, alert_value d \<noteq> None, alert_niche d \<noteq> None,
      is_active d \<noteq> None, created_at d \<noteq> None, doc_data d \<noteq> None, mock_field d \<noteq> None,
      platform_id d \<noteq> None, platform d \<noteq> None, niche_tags d \<noteq> None,
      engagement_rate d \<noteq> None, last_updated d \<noteq> None])"

definition mock_client :: MockFirestoreClient where
  "mock_client = \<lparr>
     coll_stream = (\<lambda>path.
       [MockDocumentSnapshot (path @ ''/doc1'')
          (empty_document\<lparr>doc_id := Some ''doc1'', doc_data := Some ''Influencer 1''\<rparr>),
        MockDocumentSnapshot (path @ ''/doc2'')
          (empty_document\<lparr>doc_id := Some ''doc2'', doc_data := Some ''Influencer 2''\<rparr>)]),
     doc_get = (\<lambda>path. MockDocumentSnapshot path
          (empty_document\<lparr>doc_id := Some (last_segment path), mock_field := Some ''test_data''\<rparr>)),
     coll_add = (\<lambda>path d. ''mock-doc-'' @ string_of_nat (doc_len d)),
     calls = []\<rparr>"

record FirestoreService =
  app_id :: string
  current_user_id :: "string option"
  db :: MockFirestoreClient

definition authenticate_mock_user :: "string \<Rightarrow> string option \<Rightarrow> string option" where
  "authenticate_mock_user app tok =
     (if truthy_str tok then Some (''fastapi-user-'' @ app @ ''-authenticated'')
      else Some (''fastapi-guest-'' @ app))"

definition FirestoreService_init :: "string \<Rightarrow> string option \<Rightarrow> FirestoreService" where
  "FirestoreService_init app tok =
     \<lparr>app_id = app, current_user_id = authenticate_mock_user app tok, db = mock_client\<rparr>"

definition get_private_collection_path :: "FirestoreService \<Rightarrow> string \<Rightarrow> error + string" where
  "get_private_collection_path fs collection_name =
     (if \<not> truthy_str (current_user_id fs) then Inl AuthenticationRequired
      else Inr (''artifacts/'' @ app_id fs @ ''/users/'' @ get_default (current_user_id fs) []
                @ ''/'' @ collection_name))"

definition get_public_collection_path :: "FirestoreService \<Rightarrow> string \<Rightarrow> string" where
  "get_public_collection_path fs collection_name =
     ''artifacts/'' @ app_id fs @ ''/public/data/'' @ collection_name"

definition collection_path :: "FirestoreService \<Rightarrow> string \<Rightarrow> bool \<Rightarrow> error + string" where
  "collection_path fs collection_name is_private =
     (if is_private then get_private_collection_path fs collection_name
      else Inr (get_public_collection_path fs collection_name))"

definition served :: "call \<Rightarrow> FirestoreService \<Rightarrow> FirestoreService" where
  "served c fs = fs\<lparr>db := (db fs)\<lparr>calls := calls (db fs) @ [c]\<rparr>\<rparr>"

definition get_document ::
  "FirestoreService \<Rightarrow> string \<Rightarrow> string \<Rightarrow> bool \<Rightarrow> (error + document option) \<times> FirestoreService" where
  "get_document fs collection_name did is_private =
     (case collection_path fs collection_name is_private of
        Inl e \<Rightarrow> (Inl e, fs)
      | Inr path \<Rightarrow>
          (let ref = path @ ''/'' @ did;
               snap = doc_get (db fs) ref
           in if snap_exists snap
              then (Inr (Some ((snap_data snap)\<lparr>doc_id := Some (snap_id snap)\<rparr>)), served (Get ref) fs)
              else (Inr None, served (Get ref) fs)))"

fun collect :: "snapshot list \<Rightarrow> document list" where
  "collect [] = []"
| "collect (doc # rest) =
     (if snap_exists doc then (snap_data doc)\<lparr>doc_id := Some (snap_id doc)\<rparr> # collect rest
      else collect rest)"

definition get_collection ::
  "FirestoreService \<Rightarrow> string \<Rightarrow> bool \<Rightarrow> (error + document list) \<times> FirestoreService" where
  "get_collection fs collection_name is_private =
     (case collection_path fs collection_name is_private of
        Inl e \<Rightarrow> (Inl e, fs)
      | Inr path \<Rightarrow> (Inr (collect (coll_stream (db fs) path)), served (Stream path) fs))"

definition add_document ::
  "FirestoreService \<Rightarrow> string \<Rightarrow> document \<Rightarrow> bool \<Rightarrow> (error + string) \<times> FirestoreService" where
  "add_document fs collection_name d is_private =
     (case collection_path fs collection_name is_private of
        Inl e \<Rightarrow> (Inl e, fs)
      | Inr path \<Rightarrow> (Inr (coll_add (db fs) path d), served (Add path) fs))"

definition set_document ::
  "FirestoreService \<Rightarrow> string \<Rightarrow> string \<Rightarrow> document \<Rightarrow> bool \<Rightarrow> bool
     \<Rightarrow> (error + unit) \<times> FirestoreService" where
  "set_document fs collection_name did d is_private merge =
     (case collection_path fs collection_name is_private of
        Inl e \<Rightarrow> (Inl e, fs)
      | Inr path \<Rightarrow> (Inr (), served (Set (path @ ''/'' @ did) merge) fs))"

definition delete_document ::
  "FirestoreService \<Rightarrow> string \<Rightarrow> string \<Rightarrow> bool \<Rightarrow> (error + unit) \<times> FirestoreService" where
  "delete_document fs collection_name did is_private =
     (case collection_path fs collection_name is_private of
        Inl e \<Rightarrow> (Inl e, fs)
      | Inr path \<Rightarrow> (Inr (), served (Delete (path @ ''/'' @ did)) fs))"


section \<open>recommendation\_agent.py\<close>

text \<open>
  The agent holds the loaded model, or nothing when the artifact was not found (mock mode).
  The model is the composition of \<^verbatim>\<open>_convert_features_to_df\<close> and \<^verbatim>\<open>model.predict(...)[0]\<close>;
  it yields \<open>None\<close> where that raises.
\<close>

record RecommendationAgent =
  model :: "(document \<Rightarrow> rat option) option"

definition is_ready :: "RecommendationAgent \<Rightarrow> bool" where
  "is_ready ag = (model ag \<noteq> None)"

definition mock_rank_score :: "document \<Rightarrow> rat" where
  "mock_rank_score features =
     (let growth_rate = get_default (Follower_Growth_Rate features) (1 / 20);
          avg_engagement = get_default (Average_Engagement_Rate features) 3
      in (growth_rate * 500) + (avg_engagement * 10) + 40)"

definition clip :: "rat \<Rightarrow> rat \<Rightarrow> rat \<Rightarrow> rat" where
  "clip x lo hi = min (max x lo) hi"

text \<open>Python's \<^verbatim>\<open>round\<close>: to the nearest, a tie to the even neighbour.\<close>

definition py_round :: "rat \<Rightarrow> int" where
  "py_round x =
     (let f = \<lfloor>x\<rfloor>; d = x - of_int f
      in if d < 1 / 2 then f else if 1 / 2 < d then f + 1 else if even f then f else f + 1)"

definition round_ndigits :: "rat \<Rightarrow> nat \<Rightarrow> rat" where
  "round_ndigits x n = of_int (py_round (x * 10 ^ n)) / 10 ^ n"

record prediction =
  Market_Value_Score :: rat
  Market_Tier :: string
  Estimated_Post_Fee_USD :: rat

definition predict :: "RecommendationAgent \<Rightarrow> document \<Rightarrow> prediction" where
  "predict ag influencer_profile_features =
     (let raw =
            (if \<not> is_ready ag then mock_rank_score influencer_profile_features
             else (case model ag of
                     None \<Rightarrow> mock_rank_score influencer_profile_features
                   | Some m \<Rightarrow>
                       (case m influencer_profile_features of
                          Some s \<Rightarrow> s
                        | None \<Rightarrow> mock_rank_score influencer_profile_features)));
          rank_score = clip raw 1 100;
          tier_value =
            (if 90 \<le> rank_score then (''A-List Talent'', 5000 + rank_score * 150)
             else if 70 \<le> rank_score then (''High-Growth Asset'', 2000 + rank_score * 75)
             else (''Scouting Target'', 500 + rank_score * 30))
      in \<lparr>Market_Value_Score = round_ndigits rank_score 2,
          Market_Tier = fst tier_value,
          Estimated_Post_Fee_USD = round_ndigits (snd tier_value) 0\<rparr>)"

section \<open>config.py\<close>

record Settings =
  DEFAULT_SEARCH_LIMIT :: int
  ALERT_CHECK_INTERVAL_SECONDS :: int

definition get_settings :: Settings where
  "get_settings = \<lparr>DEFAULT_SEARCH_LIMIT = 25, ALERT_CHECK_INTERVAL_SECONDS = 300\<rparr>"

section \<open>influencer\_service.py\<close>

text \<open>
  The query parameters are a dictionary read with \<^verbatim>\<open>get\<close>; \<open>None\<close> is the absent key (or
  the value \<^verbatim>\<open>None\<close> the route passes for an omitted \<^verbatim>\<open>q\<close> or \<^verbatim>\<open>niche\<close>). An absent
  \<^verbatim>\<open>max_followers\<close> stands for \<^verbatim>\<open>float('inf')\<close>.
\<close>

record query_params =
  q :: "string option"
  niche :: "string option"
  min_engagement_rate :: "rat option"
  min_followers :: "int option"
  max_followers :: "int option"
  limit :: "int option"
  page :: "int option"

definition no_params :: query_params where
  "no_params = \<lparr>q = None, niche = None, min_engagement_rate = None, min_followers = None,
     max_followers = None, limit = None, page = None\<rparr>"

record InfluencerService =
  influencer_settings :: Settings
  ranking_agent :: RecommendationAgent

definition INFLUENCER_COLLECTION :: string where
  "INFLUENCER_COLLECTION = ''influencers''"

definition augment :: "RecommendationAgent \<Rightarrow> document \<Rightarrow> document" where
  "augment ag profile =
     (let augmented_data = predict ag profile
      in profile\<lparr>market_score := Some (Market_Value_Score augmented_data),
                 market_tier := Some (Market_Tier augmented_data)\<rparr>)"

definition within_followers :: "query_params \<Rightarrow> document \<Rightarrow> bool" where
  "within_followers query profile =
     (let min_f = get_default (min_followers query) 0;
          follower_cnt = get_default (follower_count profile) 0
      in min_f \<le> follower_cnt \<and>
         (case max_followers query of None \<Rightarrow> True | Some max_f \<Rightarrow> follower_cnt \<le> max_f))"

text \<open>The loop over \<^verbatim>\<open>raw_results\<close>: three filters, each a \<^verbatim>\<open>continue\<close>, then the score.\<close>

fun filter_and_score :: "RecommendationAgent \<Rightarrow> query_params \<Rightarrow> document list \<Rightarrow> document list" where
  "filter_and_score ag query [] = []"
| "filter_and_score ag query (profile # rest) =
     (if truthy_str (niche query) \<and> niche_label profile \<noteq> niche query
      then filter_and_score ag query rest
      else if truthy_num (min_engagement_rate query) \<and>
              get_default (average_engagement_rate profile) 0 < get_default (min_engagement_rate query) 0
      then filter_and_score ag query rest
      else if \<not> within_followers query profile
      then filter_and_score ag query rest
      else augment ag profile # filter_and_score ag query rest)"

definition score_key :: "document \<Rightarrow> rat" where
  "score_key x = get_default (market_score x) 0"

text \<open>
  \<^verbatim>\<open>sorted(xs, key=..., reverse=True)\<close>: the list is reversed, sorted ascending by a stable
  sort and reversed again.
\<close>

definition sorted_reverse :: "('a \<Rightarrow> rat) \<Rightarrow> 'a list \<Rightarrow> 'a list" where
  "sorted_reverse key xs = rev (sort_key key (rev xs))"

text \<open>A slice \<^verbatim>\<open>xs[a:b]\<close>: a negative index counts from the end, and both are clamped.\<close>

definition slice_index :: "nat \<Rightarrow> int \<Rightarrow> nat" where
  "slice_index len i = (if i < 0 then nat (int len + i) else min (nat i) len)"

definition py_slice :: "'a list \<Rightarrow> int \<Rightarrow> int \<Rightarrow> 'a list" where
  "py_slice xs a b =
     (let lo = slice_index (length xs) a; hi = slice_index (length xs) b
      in take (hi - lo) (drop lo xs))"

definition search_and_filter_influencers ::
  "InfluencerService \<Rightarrow> query_params \<Rightarrow> FirestoreService
     \<Rightarrow> (error + document list) \<times> FirestoreService" where
  "search_and_filter_influencers svc query fs =
     (case get_collection fs INFLUENCER_COLLECTION False of
        (Inl e, fs') \<Rightarrow> (Inl e, fs')
      | (Inr raw_results, fs') \<Rightarrow>
          (let filtered_results = filter_and_score (ranking_agent svc) query raw_results;
               sorted_results = sorted_reverse score_key filtered_results;
               lim = get_default (limit query) (DEFAULT_SEARCH_LIMIT (influencer_settings svc))
           in (Inr (py_slice sorted_results 0 lim), fs')))"

section \<open>routes/search.py\<close>

text \<open>
  The response schema \<^verbatim>\<open>InfluencerProfile\<close> of \<^verbatim>\<open>routes/influencers.py\<close>. Building it from a
  document fails when a required key is absent; \<^verbatim>\<open>niche_tags\<close> defaults to the empty list
  and keys outside the schema are dropped.
\<close>

record InfluencerProfile =
  profile_platform_id :: string
  profile_username :: string
  profile_platform :: string
  profile_niche_tags :: "string list"
  profile_follower_count :: int
  profile_engagement_rate :: rat
  profile_market_score :: rat
  profile_last_updated :: string

definition InfluencerProfile_validate :: "document \<Rightarrow> InfluencerProfile option" where
  "InfluencerProfile_validate d =
     (case (platform_id d, username d, platform d) of
        (Some pid, Some uname, Some plat) \<Rightarrow>
          (case (follower_count d, engagement_rate d, market_score d, last_updated d) of
             (Some fc, Some er, Some ms, Some lu) \<Rightarrow>
               Some \<lparr>profile_platform_id = pid, profile_username = uname,
                     profile_platform = plat,
                     profile_niche_tags = get_default (niche_tags d) [],
                     profile_follower_count = fc, profile_engagement_rate = er,
                     profile_market_score = ms, profile_last_updated = lu\<rparr>
           | _ \<Rightarrow> None)
      | _ \<Rightarrow> None)"

record SearchResult =
  count :: nat
  page_size :: int
  page_no :: int
  results :: "InfluencerProfile list"

text \<open>
  The endpoint: the dependency \<^verbatim>\<open>get_current_user_id\<close> answers 401 without a user id, the
  \<^verbatim>\<open>Query\<close> bounds reject a request before the body runs, and the body turns every exception
  into a 500: an exception of the service, and the validation error raised when
  \<^verbatim>\<open>SearchResult\<close> is built from a page holding a document that does not fit the schema.
\<close>

definition search_influencers ::
  "InfluencerService \<Rightarrow> string option \<Rightarrow> string option \<Rightarrow> rat \<Rightarrow> int \<Rightarrow> int \<Rightarrow> int
     \<Rightarrow> FirestoreService \<Rightarrow> (error + SearchResult) \<times> FirestoreService" where
  "search_influencers svc q_arg niche_arg min_engagement min_followers_arg page_arg limit_arg fs =
     (if \<not> truthy_str (current_user_id fs) then (Inl (HTTPException 401), fs)
      else if \<not> (0 \<le> min_engagement \<and> min_engagement \<le> 100 \<and> 0 \<le> min_followers_arg \<and>
                 1 \<le> page_arg \<and> 1 \<le> limit_arg \<and> limit_arg \<le> 100)
      then (Inl RequestValidationError, fs)
      else
        (let search_params = \<lparr>q = q_arg, niche = niche_arg,
               min_engagement_rate = Some min_engagement, min_followers = Some min_followers_arg,
               max_followers = None, limit = Some limit_arg, page = Some page_arg\<rparr>
         in case search_and_filter_influencers svc search_params fs of
              (Inl e, fs') \<Rightarrow> (Inl (HTTPException 500), fs')
            | (Inr all_results, fs') \<Rightarrow>
                (let total_mock_count = length all_results * 2;
                     start_index = (page_arg - 1) * limit_arg;
                     paginated_results = py_slice all_results start_index (start_index + limit_arg)
                 in case those (map InfluencerProfile_validate paginated_results) of
                      None \<Rightarrow> (Inl (HTTPException 500), fs')
                    | Some profiles \<Rightarrow>
                        (Inr \<lparr>count = total_mock_count, page_size = limit_arg, page_no = page_arg,
                              results = profiles\<rparr>, fs'))))"

section \<open>alert\_service.py\<close>

text \<open>
  A triggered alert. The message is the text
  \<^verbatim>\<open>Market alert triggered! Influencer {username} meets your criteria ({condition_type} >= {target_value}).\<close>;
  it is kept as the three values the text is formatted from.
\<close>

record TriggeredAlert =
  alert_id :: "string option"
  alert_user_id :: "string option"
  message :: "string option \<times> string \<times> rat"
  triggered_on :: "string option"
  profile_link :: string

text \<open>
  The alert service holds its settings, the influencer service, the time of the last check and
  the Firestore service, which is the one instance the influencer service reads through too.
\<close>

record AlertService =
  settings :: Settings
  influencer_service :: InfluencerService
  last_check_time :: rat
  firestore :: FirestoreService

definition ALERT_COLLECTION :: string where
  "ALERT_COLLECTION = ''user_alerts''"

definition AlertService_init ::
  "FirestoreService \<Rightarrow> Settings \<Rightarrow> InfluencerService \<Rightarrow> rat \<Rightarrow> AlertService" where
  "AlertService_init fs st isvc now =
     \<lparr>settings = st, influencer_service = isvc,
      last_check_time = now - of_int (ALERT_CHECK_INTERVAL_SECONDS st) - 60,
      firestore = fs\<rparr>"

text \<open>
  A dictionary that keeps insertion order: assigning to a key that is present replaces the
  value in place, a new key goes to the end.
\<close>

fun dict_set :: "'k \<Rightarrow> 'v \<Rightarrow> ('k \<times> 'v) list \<Rightarrow> ('k \<times> 'v) list" where
  "dict_set k v [] = [(k, v)]"
| "dict_set k v ((k', v') # d) = (if k' = k then (k, v) # d else (k', v') # dict_set k v d)"

text \<open>\<^verbatim>\<open>{p['id']: p for p in market_data}\<close>\<close>

fun influencer_map_of ::
  "document list \<Rightarrow> (string \<times> document) list \<Rightarrow> error + (string \<times> document) list" where
  "influencer_map_of [] d = Inr d"
| "influencer_map_of (p # ps) d =
     (case doc_id p of
        None \<Rightarrow> Inl KeyError
      | Some i \<Rightarrow> influencer_map_of ps (dict_set i p d))"

text \<open>
  The loop over the profiles for one alert that has passed the guard: a niche mismatch is a
  \<^verbatim>\<open>continue\<close>, the first match appends one alert and is a \<^verbatim>\<open>break\<close>.
\<close>

fun scan_profiles ::
  "document \<Rightarrow> string \<Rightarrow> rat \<Rightarrow> (string \<times> document) list \<Rightarrow> TriggeredAlert list" where
  "scan_profiles alert ctype target_value [] = []"
| "scan_profiles alert ctype target_value ((influencer_id, profile) # rest) =
     (if truthy_str (alert_niche alert) \<and> niche_label profile \<noteq> alert_niche alert
      then scan_profiles alert ctype target_value rest
      else
        (let is_triggered =
               (if ctype = ''min_engagement_rate'' \<and>
                   target_value \<le> get_default (average_engagement_rate profile) 0 then True
                else if ctype = ''min_market_score'' \<and>
                   target_value \<le> get_default (market_score profile) 0 then True
                else False)
         in if is_triggered
            then [\<lparr>alert_id = doc_id alert,
                   alert_user_id = user_id alert,
                   message = (username profile, ctype, target_value),
                   triggered_on = username profile,
                   profile_link = ''/influencers/'' @ influencer_id\<rparr>]
            else scan_profiles alert ctype target_value rest))"

definition evaluate_alert :: "(string \<times> document) list \<Rightarrow> document \<Rightarrow> TriggeredAlert list" where
  "evaluate_alert influencer_map alert =
     (if \<not> truthy_str (condition_type alert) \<or> \<not> truthy_num (alert_value alert) then []
      else scan_profiles alert (get_default (condition_type alert) [])
             (get_default (alert_value alert) 0) influencer_map)"

fun evaluate_alerts :: "(string \<times> document) list \<Rightarrow> document list \<Rightarrow> TriggeredAlert list" where
  "evaluate_alerts influencer_map [] = []"
| "evaluate_alerts influencer_map (alert # rest) =
     evaluate_alert influencer_map alert @ evaluate_alerts influencer_map rest"

definition evaluate_all_alerts ::
  "rat \<Rightarrow> AlertService \<Rightarrow> (error + TriggeredAlert list) \<times> AlertService" where
  "evaluate_all_alerts current_time svc =
     (if current_time - last_check_time svc < of_int (ALERT_CHECK_INTERVAL_SECONDS (settings svc))
      then (Inr [], svc)
      else
        (let svc1 = svc\<lparr>last_check_time := current_time\<rparr>
         in case search_and_filter_influencers (influencer_service svc1) no_params (firestore svc1) of
              (Inl e, fs1) \<Rightarrow> (Inl e, svc1\<lparr>firestore := fs1\<rparr>)
            | (Inr market_data, fs1) \<Rightarrow>
                (case influencer_map_of market_data [] of
                   Inl e \<Rightarrow> (Inl e, svc1\<lparr>firestore := fs1\<rparr>)
                 | Inr influencer_map \<Rightarrow>
                     (case get_collection fs1 ALERT_COLLECTION True of
                        (Inl e, fs2) \<Rightarrow> (Inl e, svc1\<lparr>firestore := fs2\<rparr>)
                      | (Inr all_alerts, fs2) \<Rightarrow>
                          (Inr (evaluate_alerts influencer_map all_alerts),
                           svc1\<lparr>firestore := fs2\<rparr>)))))"


text \<open>Two profiles of the niche Fitness, with engagement rates 5.2 and 2.0.\<close>

definition profile_a :: document where
  "profile_a = empty_document\<lparr>username := Some ''alice'', bio := Some ''Marathon coach'',
     niche_label := Some ''Fitness'', average_engagement_rate := Some (26 / 5)\<rparr>"

definition profile_b :: document where
  "profile_b = empty_document\<lparr>username := Some ''bob'', bio := Some ''Gym reviews'',
     niche_label := Some ''Fitness'', average_engagement_rate := Some 2\<rparr>"

definition two_profiles :: "snapshot list" where
  "two_profiles = [MockDocumentSnapshot ''a'' profile_a, MockDocumentSnapshot ''b'' profile_b]"

text \<open>
  The three checks of the search loop as one predicate: a profile survives when none of the
  three \<^verbatim>\<open>continue\<close> branches is taken (\<open>filter_and_score_eq\<close> below).
\<close>

definition survives :: "query_params \<Rightarrow> document \<Rightarrow> bool" where
  "survives query profile =
     (\<not> (truthy_str (niche query) \<and> niche_label profile \<noteq> niche query) \<and>
      \<not> (truthy_num (min_engagement_rate query) \<and>
         get_default (average_engagement_rate profile) 0 < get_default (min_engagement_rate query) 0) \<and>
      within_followers query profile)"

section \<open>A small store for examples\<close>

text \<open>
  A Firestore service of the application \<^verbatim>\<open>app\<close> with the user \<^verbatim>\<open>u1\<close> bound, whose public
  influencer collection streams \<open>profiles\<close> and whose private alert collection streams
  \<open>alerts\<close>; and an influencer service with the default settings whose agent runs in mock mode.
\<close>

definition store_with :: "snapshot list \<Rightarrow> snapshot list \<Rightarrow> FirestoreService" where
  "store_with profiles alerts =
     \<lparr>app_id = ''app'', current_user_id = Some ''u1'',
      db = \<lparr>coll_stream = (\<lambda>path.
               if path = ''artifacts/app/public/data/influencers'' then profiles
               else if path = ''artifacts/app/users/u1/user_alerts'' then alerts
               else []),
            doc_get = doc_get mock_client,
            coll_add = coll_add mock_client,
            calls = []\<rparr>\<rparr>"

definition mock_mode_service :: InfluencerService where
  "mock_mode_service = \<lparr>influencer_settings = get_settings, ranking_agent = \<lparr>model = None\<rparr>\<rparr>"

text \<open>An influencer service whose model raises on the profile of \<^verbatim>\<open>bob\<close> and scores 50 elsewhere.\<close>

definition failing_model_service :: InfluencerService where
  "failing_model_service = \<lparr>influencer_settings = get_settings,
     ranking_agent = \<lparr>model = Some (\<lambda>d. if username d = Some ''bob'' then None else Some 50)\<rparr>\<rparr>"

section \<open>The alert condition in the specification's words\<close>

text \<open>
  A profile passes a rule's niche filter when the rule names no niche or names the profile's
  niche label; it qualifies for a \<^verbatim>\<open>min_engagement_rate\<close> rule with threshold \<open>T\<close> when it
  passes the niche filter and its average engagement rate (0 when absent) is at least \<open>T\<close>.
  \<open>triggered\<close> is the alert the evaluation emits for a rule and a profile.
\<close>

definition passes_niche_filter :: "document \<Rightarrow> document \<Rightarrow> bool" where
  "passes_niche_filter rule profile =
     (truthy_str (alert_niche rule) \<longrightarrow> niche_label profile = alert_niche rule)"

definition engagement_qualifies :: "document \<Rightarrow> rat \<Rightarrow> document \<Rightarrow> bool" where
  "engagement_qualifies rule T profile =
     (passes_niche_filter rule profile \<and> T \<le> get_default (average_engagement_rate profile) 0)"

definition triggered :: "document \<Rightarrow> string \<Rightarrow> rat \<Rightarrow> document \<Rightarrow> TriggeredAlert" where
  "triggered rule ctype T profile =
     \<lparr>alert_id = doc_id rule, alert_user_id = user_id rule,
      message = (username profile, ctype, T),
      triggered_on = username profile,
      profile_link = ''/influencers/'' @ get_default (doc_id profile) []\<rparr>"

section \<open>Alert services and rules for examples\<close>

text \<open>
  An alert service constructed at time 1000 over the example store, with the default settings:
  its last check time is \<open>1000 - 300 - 60 = 640\<close>.
\<close>

definition example_alert_service :: "snapshot list \<Rightarrow> snapshot list \<Rightarrow> AlertService" where
  "example_alert_service profiles alerts =
     AlertService_init (store_with profiles alerts) get_settings mock_mode_service 1000"

definition fitness_rule :: document where
  "fitness_rule = empty_document\<lparr>user_id := Some ''u1'',
     condition_type := Some ''min_engagement_rate'', alert_value := Some 3,
     alert_niche := Some ''Fitness''\<rparr>"

definition zero_rule :: document where
  "zero_rule = empty_document\<lparr>user_id := Some ''u1'',
     condition_type := Some ''min_engagement_rate'', alert_value := Some 0\<rparr>"

definition inactive_rule :: document where
  "inactive_rule = fitness_rule\<lparr>is_active := Some False\<rparr>"

definition five_rule :: document where
  "five_rule = empty_document\<lparr>user_id := Some ''u1'',
     condition_type := Some ''min_engagement_rate'', alert_value := Some 5\<rparr>"

text \<open>
  A public collection of 26 profiles: 25 without an engagement rate, with the ids \<^verbatim>\<open>p0\<close> to
  \<^verbatim>\<open>p24\<close>, and then one with the engagement rate 9.
\<close>

definition filler :: "nat \<Rightarrow> snapshot" where
  "filler n = MockDocumentSnapshot (''p'' @ string_of_nat n)
                (empty_document\<lparr>niche_label := Some ''Fitness''\<rparr>)"

definition late_profile :: document where
  "late_profile = empty_document\<lparr>username := Some ''zoe'', niche_label := Some ''Fitness'',
     average_engagement_rate := Some 9\<rparr>"

definition fillers :: "snapshot list" where
  "fillers = map filler [0..<25]"

definition crowded_pool :: "snapshot list" where
  "crowded_pool = fillers @ [MockDocumentSnapshot ''z'' late_profile]"

section \<open>Scoped store: private paths need a user id, public paths do not\<close>

lemma collection_path_public [simp]:
  "collection_path fs c False = Inr (get_public_collection_path fs c)"
  by (simp add: collection_path_def)

lemma collection_path_private_unbound:
  "\<not> truthy_str (current_user_id fs) \<Longrightarrow> collection_path fs c True = Inl AuthenticationRequired"
  by (simp add: collection_path_def get_private_collection_path_def)

lemma collection_path_private_bound:
  "truthy_str (current_user_id fs) \<Longrightarrow>
   collection_path fs c True = get_private_collection_path fs c \<and>
   (\<exists>path. get_private_collection_path fs c = Inr path)"
  by (simp add: collection_path_def get_private_collection_path_def)

lemma public_path_user [simp]:
  "get_public_collection_path (fs\<lparr>current_user_id := u\<rparr>) c = get_public_collection_path fs c"
  by (simp add: get_public_collection_path_def)

text \<open>
  C5. With no user id bound (the id is \<^verbatim>\<open>None\<close> or empty), each of the five operations on
  a private collection raises the authentication exception and serves no call, so the service
  is unchanged. The same operation on a public collection returns a result, and that result
  is the same whatever user id is bound.
\<close>

theorem private_scope_requires_identity:
  assumes "\<not> truthy_str (current_user_id fs)"
  shows "get_document fs c d True = (Inl AuthenticationRequired, fs)
       \<and> get_collection fs c True = (Inl AuthenticationRequired, fs)
       \<and> set_document fs c d x True m = (Inl AuthenticationRequired, fs)
       \<and> add_document fs c x True = (Inl AuthenticationRequired, fs)
       \<and> delete_document fs c d True = (Inl AuthenticationRequired, fs)
       \<and> (\<forall>u. \<exists>r. fst (get_document (fs\<lparr>current_user_id := u\<rparr>) c d False) = Inr r
                 \<and> fst (get_document fs c d False) = Inr r)
       \<and> (\<forall>u. \<exists>r. fst (get_collection (fs\<lparr>current_user_id := u\<rparr>) c False) = Inr r
                 \<and> fst (get_collection fs c False) = Inr r)
       \<and> (\<forall>u. \<exists>r. fst (set_document (fs\<lparr>current_user_id := u\<rparr>) c d x False m) = Inr r
                 \<and> fst (set_document fs c d x False m) = Inr r)
       \<and> (\<forall>u. \<exists>r. fst (add_document (fs\<lparr>current_user_id := u\<rparr>) c x False) = Inr r
                 \<and> fst (add_document fs c x False) = Inr r)
       \<and> (\<forall>u. \<exists>r. fst (delete_document (fs\<lparr>current_user_id := u\<rparr>) c d False) = Inr r
                 \<and> fst (delete_document fs c d False) = Inr r)"
  using assms
  by (simp add: get_document_def get_collection_def set_document_def add_document_def
      delete_document_def collection_path_private_unbound Let_def served_def)

theorem private_scope_requires_identity_witness:
  "\<not> truthy_str (current_user_id \<lparr>app_id = ''app'', current_user_id = None, db = mock_client\<rparr>)
   \<and> fst (get_document \<lparr>app_id = ''app'', current_user_id = None, db = mock_client\<rparr>
           ''user_alerts'' ''a1'' True) = Inl AuthenticationRequired
   \<and> fst (get_document \<lparr>app_id = ''app'', current_user_id = None, db = mock_client\<rparr>
           ''user_alerts'' ''a1'' False)
       = Inr (Some (empty_document\<lparr>doc_id := Some ''a1'', mock_field := Some ''test_data''\<rparr>))"
proof -
  have unbound: "\<not> truthy_str (current_user_id \<lparr>app_id = ''app'', current_user_id = None, db = mock_client\<rparr>)"
    by simp
  have "get_document \<lparr>app_id = ''app'', current_user_id = None, db = mock_client\<rparr>
          ''user_alerts'' ''a1'' True
        = (Inl AuthenticationRequired, \<lparr>app_id = ''app'', current_user_id = None, db = mock_client\<rparr>)"
    using private_scope_requires_identity [OF unbound] by blast
  moreover have "fst (get_document \<lparr>app_id = ''app'', current_user_id = None, db = mock_client\<rparr>
           ''user_alerts'' ''a1'' False)
       = Inr (Some (empty_document\<lparr>doc_id := Some ''a1'', mock_field := Some ''test_data''\<rparr>))"
    by (simp add: get_document_def get_public_collection_path_def mock_client_def
        MockDocumentSnapshot_def last_segment_def Let_def)
  ultimately show ?thesis using unbound by simp
qed


section \<open>Search: filtering, scoring, ranking and the page\<close>

lemma filter_and_score_eq:
  "filter_and_score ag query xs = map (augment ag) (filter (survives query) xs)"
  by (induction xs) (simp_all add: survives_def)

lemma get_collection_public:
  "get_collection fs c False =
     (Inr (collect (coll_stream (db fs) (get_public_collection_path fs c))),
      served (Stream (get_public_collection_path fs c)) fs)"
  by (simp add: get_collection_def)

lemma py_slice_from_0: "py_slice xs 0 b = take (slice_index (length xs) b) xs"
  by (simp add: py_slice_def slice_index_def Let_def)

lemma slice_index_all: "int len \<le> b \<Longrightarrow> slice_index len b = len"
  by (auto simp: slice_index_def)

lemma slice_index_le: "0 \<le> b \<Longrightarrow> slice_index len b \<le> nat b"
  by (simp add: slice_index_def)

lemma set_sorted_reverse [simp]: "set (sorted_reverse key xs) = set xs"
  by (simp add: sorted_reverse_def)

lemma length_sorted_reverse [simp]: "length (sorted_reverse key xs) = length xs"
  by (simp add: sorted_reverse_def)

lemma sorted_reverse_descending:
  "sorted_wrt (\<lambda>a b. key b \<le> key a) (sorted_reverse key xs)"
proof -
  have "sorted (map key (sort_key key (rev xs)))" by simp
  then have "sorted_wrt (\<lambda>a b. key a \<le> key b) (sort_key key (rev xs))"
    by (simp add: sorted_map)
  then show ?thesis
    by (simp add: sorted_reverse_def sorted_wrt_rev)
qed

lemma sorted_reverse_stable:
  "filter (\<lambda>x. key x = k) (sorted_reverse key xs) = filter (\<lambda>x. key x = k) xs"
  by (simp add: sorted_reverse_def rev_filter [symmetric] sort_key_stable)

lemma search_eq:
  "search_and_filter_influencers svc query fs =
     (Inr (py_slice (sorted_reverse score_key
              (map (augment (ranking_agent svc))
                 (filter (survives query)
                    (collect (coll_stream (db fs) (get_public_collection_path fs INFLUENCER_COLLECTION))))))
            0 (get_default (limit query) (DEFAULT_SEARCH_LIMIT (influencer_settings svc)))),
      served (Stream (get_public_collection_path fs INFLUENCER_COLLECTION)) fs)"
  by (simp add: search_and_filter_influencers_def get_collection_public filter_and_score_eq Let_def)


lemma survives_ignores_q: "survives (query\<lparr>q := x\<rparr>) = survives query"
  by (rule ext) (simp add: survives_def within_followers_def)

lemma search_ignores_q:
  "search_and_filter_influencers svc (query\<lparr>q := x\<rparr>) fs
     = search_and_filter_influencers svc query fs"
  by (simp add: search_eq survives_ignores_q)

lemma search_length_le:
  assumes "fst (search_and_filter_influencers svc query fs) = Inr res"
      and "limit query = Some lm" "0 \<le> lm"
  shows "length res \<le> nat lm"
  using assms by (auto simp: search_eq py_slice_from_0 slice_index_def)

text \<open>
  The slice the endpoint takes from a list that is already cut to \<open>lm\<close> items: the whole
  list on page 1, nothing on any later page.
\<close>

lemma page_slice:
  assumes "length xs \<le> nat lm" "1 \<le> pg" "1 \<le> lm"
  shows "py_slice xs ((pg - 1) * lm) ((pg - 1) * lm + lm) = (if pg = 1 then xs else [])"
proof (cases "pg = 1")
  case True
  then show ?thesis using assms by (simp add: py_slice_def slice_index_def Let_def)
next
  case False
  then have "1 \<le> pg - 1" using \<open>1 \<le> pg\<close> by simp
  then have "1 * lm \<le> (pg - 1) * lm" using \<open>1 \<le> lm\<close>
    by (intro mult_right_mono) simp_all
  then have a: "lm \<le> (pg - 1) * lm" by simp
  have b: "\<not> (pg - 1) * lm < 0" "\<not> (pg - 1) * lm + lm < 0" using a \<open>1 \<le> lm\<close> by linarith+
  have c: "length xs \<le> nat ((pg - 1) * lm)" using a assms(1) by linarith
  show ?thesis using False b c
    by (simp add: py_slice_def slice_index_def Let_def)
qed

lemma search_influencers_results:
  assumes "truthy_str (current_user_id fs)"
      and "0 \<le> me" "me \<le> 100" "0 \<le> mf" "1 \<le> pg" "1 \<le> lm" "lm \<le> 100"
      and "fst (search_and_filter_influencers svc
                 \<lparr>q = qa, niche = na, min_engagement_rate = Some me, min_followers = Some mf,
                  max_followers = None, limit = Some lm, page = Some pg\<rparr> fs) = Inr all_results"
  shows "fst (search_influencers svc qa na me mf pg lm fs) =
           (case those (map InfluencerProfile_validate (if pg = 1 then all_results else [])) of
              None \<Rightarrow> Inl (HTTPException 500)
            | Some profiles \<Rightarrow>
                Inr \<lparr>count = length all_results * 2, page_size = lm, page_no = pg,
                     results = profiles\<rparr>)"
proof -
  have len: "length all_results \<le> nat lm"
    using search_length_le [OF assms(8)] \<open>1 \<le> lm\<close> by simp
  obtain fs' where s: "search_and_filter_influencers svc
                 \<lparr>q = qa, niche = na, min_engagement_rate = Some me, min_followers = Some mf,
                  max_followers = None, limit = Some lm, page = Some pg\<rparr> fs = (Inr all_results, fs')"
    using assms(8) by (cases "search_and_filter_influencers svc
                 \<lparr>q = qa, niche = na, min_engagement_rate = Some me, min_followers = Some mf,
                  max_followers = None, limit = Some lm, page = Some pg\<rparr> fs") simp
  show ?thesis
    unfolding search_influencers_def Let_def s
    using assms(1-7) page_slice [OF len \<open>1 \<le> pg\<close> \<open>1 \<le> lm\<close>]
    by (simp split: option.splits)
qed

text \<open>Evaluating the example store and the mock score.\<close>

lemma mock_score:
  "Follower_Growth_Rate p = None \<Longrightarrow> Average_Engagement_Rate p = None \<Longrightarrow>
   augment \<lparr>model = None\<rparr> p = p\<lparr>market_score := Some 95, market_tier := Some ''A-List Talent''\<rparr>"
  by (simp add: augment_def predict_def is_ready_def mock_rank_score_def clip_def
      round_ndigits_def py_round_def Let_def)

lemma store_with_pool:
  "collect (coll_stream (db (store_with ps al))
      (get_public_collection_path (store_with ps al) INFLUENCER_COLLECTION)) = collect ps"
  by (simp add: store_with_def get_public_collection_path_def INFLUENCER_COLLECTION_def)

lemma store_with_alerts:
  "get_private_collection_path (store_with ps al) ALERT_COLLECTION
     = Inr ''artifacts/app/users/u1/user_alerts''"
  "coll_stream (db (store_with ps al)) ''artifacts/app/users/u1/user_alerts'' = al"
  by (simp_all add: store_with_def get_private_collection_path_def ALERT_COLLECTION_def)

lemma store_with_user: "current_user_id (store_with ps al) = Some ''u1''"
  by (simp add: store_with_def)

lemma collect_two_profiles:
  "collect two_profiles = [profile_a\<lparr>doc_id := Some ''a''\<rparr>, profile_b\<lparr>doc_id := Some ''b''\<rparr>]"
  by (simp add: two_profiles_def MockDocumentSnapshot_def last_segment_def)

text \<open>
  C8. The search result is in descending order of score, and for every score \<open>s\<close> the
  result items with that score are, in the same order, the first of the store's surviving
  profiles with that score: equal scores keep the order of the store's listing.
\<close>

theorem search_sorted_descending_stable:
  "\<exists>res. fst (search_and_filter_influencers svc query fs) = Inr res
     \<and> sorted_wrt (\<lambda>a b. score_key b \<le> score_key a) res
     \<and> (\<forall>s. prefix (filter (\<lambda>x. score_key x = s) res)
               (map (augment (ranking_agent svc))
                  (filter (\<lambda>p. survives query p \<and> score_key (augment (ranking_agent svc) p) = s)
                     (collect (coll_stream (db fs)
                        (get_public_collection_path fs INFLUENCER_COLLECTION))))))"
proof -
  define raw where "raw = collect (coll_stream (db fs) (get_public_collection_path fs INFLUENCER_COLLECTION))"
  define scored where "scored = map (augment (ranking_agent svc)) (filter (survives query) raw)"
  define n where "n = slice_index (length scored)
     (get_default (limit query) (DEFAULT_SEARCH_LIMIT (influencer_settings svc)))"
  define res where "res = take n (sorted_reverse score_key scored)"
  have r: "fst (search_and_filter_influencers svc query fs) = Inr res"
    by (simp add: search_eq py_slice_from_0 res_def n_def scored_def raw_def)
  have d: "sorted_wrt (\<lambda>a b. score_key b \<le> score_key a) res"
    unfolding res_def by (rule sorted_wrt_take [OF sorted_reverse_descending])
  have st: "prefix (filter (\<lambda>x. score_key x = s) res)
               (map (augment (ranking_agent svc))
                  (filter (\<lambda>p. survives query p \<and> score_key (augment (ranking_agent svc) p) = s) raw))" for s
  proof -
    have "prefix (filter (\<lambda>x. score_key x = s) res)
            (filter (\<lambda>x. score_key x = s) (sorted_reverse score_key scored))"
      unfolding res_def by (rule filter_mono_prefix [OF take_is_prefix])
    also have "filter (\<lambda>x. score_key x = s) (sorted_reverse score_key scored)
             = filter (\<lambda>x. score_key x = s) scored"
      by (rule sorted_reverse_stable)
    also have "\<dots> = map (augment (ranking_agent svc))
                  (filter (\<lambda>p. survives query p \<and> score_key (augment (ranking_agent svc) p) = s) raw)"
      by (simp add: scored_def filter_map comp_def conj_commute)
    finally show ?thesis .
  qed
  show ?thesis using r d st unfolding raw_def by blast
qed

text \<open>
  C1. The service cuts the ranked list to \<^verbatim>\<open>limit\<close> items and the endpoint then slices
  that list from \<^verbatim>\<open>(page - 1) * limit\<close>, so a page after the first is empty
  (\<open>search_influencers_results\<close>). With two profiles in the store, page size 1 and page 2,
  the unpaginated listing has an item at offset 1, and the page returned has none.
\<close>

theorem second_page_is_empty:
  "fst (search_and_filter_influencers mock_mode_service no_params (store_with two_profiles []))
     = Inr [profile_a\<lparr>doc_id := Some ''a'', market_score := Some 95, market_tier := Some ''A-List Talent''\<rparr>,
            profile_b\<lparr>doc_id := Some ''b'', market_score := Some 95, market_tier := Some ''A-List Talent''\<rparr>]
   \<and> fst (search_influencers mock_mode_service None None 0 0 2 1 (store_with two_profiles []))
     = Inr \<lparr>count = 2, page_size = 1, page_no = 2, results = []\<rparr>"
proof -
  have full: "fst (search_and_filter_influencers mock_mode_service no_params (store_with two_profiles []))
     = Inr [profile_a\<lparr>doc_id := Some ''a'', market_score := Some 95, market_tier := Some ''A-List Talent''\<rparr>,
            profile_b\<lparr>doc_id := Some ''b'', market_score := Some 95, market_tier := Some ''A-List Talent''\<rparr>]"
    by (simp add: search_eq store_with_pool collect_two_profiles survives_def within_followers_def
        no_params_def mock_mode_service_def mock_score profile_a_def profile_b_def empty_document_def
        sorted_reverse_def score_key_def py_slice_def slice_index_def get_settings_def)
  have one: "fst (search_and_filter_influencers mock_mode_service
                 \<lparr>q = None, niche = None, min_engagement_rate = Some 0, min_followers = Some 0,
                  max_followers = None, limit = Some 1, page = Some 2\<rparr> (store_with two_profiles []))
     = Inr [profile_a\<lparr>doc_id := Some ''a'', market_score := Some 95, market_tier := Some ''A-List Talent''\<rparr>]"
    by (simp add: search_eq store_with_pool collect_two_profiles survives_def within_followers_def
        mock_mode_service_def mock_score profile_a_def profile_b_def empty_document_def
        sorted_reverse_def score_key_def py_slice_def slice_index_def get_settings_def)
  have "fst (search_influencers mock_mode_service None None 0 0 2 1 (store_with two_profiles []))
     = Inr \<lparr>count = 2, page_size = 1, page_no = 2, results = []\<rparr>"
    using search_influencers_results [OF _ _ _ _ _ _ _ one] by (simp add: store_with_user)
  with full show ?thesis by simp
qed

text \<open>
  C7. The service never reads the key \<^verbatim>\<open>q\<close>: its result is the same whatever free-text
  query is supplied (\<open>search_ignores_q\<close>). With the parameters the endpoint builds for the
  free-text query \<^verbatim>\<open>yoga\<close>, the service retains both profiles of the store, although
  neither username (\<^verbatim>\<open>alice\<close>, \<^verbatim>\<open>bob\<close>) nor bio (\<^verbatim>\<open>Marathon coach\<close>,
  \<^verbatim>\<open>Gym reviews\<close>) contains it.
\<close>

theorem free_text_query_is_ignored:
  "username profile_a = Some ''alice'' \<and> bio profile_a = Some ''Marathon coach''
   \<and> username profile_b = Some ''bob'' \<and> bio profile_b = Some ''Gym reviews''
   \<and> fst (search_and_filter_influencers mock_mode_service
            \<lparr>q = Some ''yoga'', niche = None, min_engagement_rate = Some 0,
             min_followers = Some 0, max_followers = None, limit = Some 20, page = Some 1\<rparr>
            (store_with two_profiles []))
     = Inr [profile_a\<lparr>doc_id := Some ''a'', market_score := Some 95, market_tier := Some ''A-List Talent''\<rparr>,
            profile_b\<lparr>doc_id := Some ''b'', market_score := Some 95, market_tier := Some ''A-List Talent''\<rparr>]"
proof -
  have "fst (search_and_filter_influencers mock_mode_service
            \<lparr>q = Some ''yoga'', niche = None, min_engagement_rate = Some 0,
             min_followers = Some 0, max_followers = None, limit = Some 20, page = Some 1\<rparr>
            (store_with two_profiles []))
     = Inr [profile_a\<lparr>doc_id := Some ''a'', market_score := Some 95, market_tier := Some ''A-List Talent''\<rparr>,
            profile_b\<lparr>doc_id := Some ''b'', market_score := Some 95, market_tier := Some ''A-List Talent''\<rparr>]"
    by (simp add: search_eq store_with_pool collect_two_profiles survives_def within_followers_def
        mock_mode_service_def mock_score profile_a_def profile_b_def empty_document_def
        sorted_reverse_def score_key_def py_slice_def slice_index_def get_settings_def)
  then show ?thesis by (simp add: profile_a_def profile_b_def empty_document_def)
qed

subsection \<open>The filters\<close>

lemma survives_augment [simp]: "survives query (augment ag p) = survives query p"
  by (simp add: survives_def within_followers_def augment_def Let_def)

text \<open>Every profile of the output passes the three checks of the loop.\<close>

lemma search_output_survives:
  assumes "fst (search_and_filter_influencers svc query fs) = Inr res" and "x \<in> set res"
  shows "survives query x"
proof -
  from assms have "x \<in> set (map (augment (ranking_agent svc)) (filter (survives query)
      (collect (coll_stream (db fs) (get_public_collection_path fs INFLUENCER_COLLECTION)))))"
    by (auto simp: search_eq py_slice_from_0 dest: in_set_takeD)
  then show ?thesis by auto
qed

text \<open>
  Dropping a key from the query keeps every survivor; for \<^verbatim>\<open>min_followers\<close>, whose default
  is 0, when the bound dropped was not negative.
\<close>

lemma removing_predicate_keeps_survivors:
  assumes "survives query p"
  shows "survives (query\<lparr>niche := None\<rparr>) p"
    and "survives (query\<lparr>min_engagement_rate := None\<rparr>) p"
    and "survives (query\<lparr>max_followers := None\<rparr>) p"
    and "survives (query\<lparr>q := None\<rparr>) p"
    and "0 \<le> get_default (min_followers query) 0 \<Longrightarrow> survives (query\<lparr>min_followers := None\<rparr>) p"
  using assms by (auto simp: survives_def within_followers_def Let_def split: option.splits)

text \<open>
  C9. The niche, engagement and follower predicates are enforced on every profile of the
  output, and dropping one of them keeps every candidate (the two lemmas above); the free-text
  predicate is not: a search for the niche \<^verbatim>\<open>Fitness\<close> and the text \<^verbatim>\<open>yoga\<close> returns two
  profiles that do not contain the text.
\<close>

theorem free_text_predicate_not_enforced:
  "fst (search_and_filter_influencers mock_mode_service
          (no_params\<lparr>q := Some ''yoga'', niche := Some ''Fitness''\<rparr>) (store_with two_profiles []))
     = Inr [profile_a\<lparr>doc_id := Some ''a'', market_score := Some 95, market_tier := Some ''A-List Talent''\<rparr>,
            profile_b\<lparr>doc_id := Some ''b'', market_score := Some 95, market_tier := Some ''A-List Talent''\<rparr>]"
  by (simp add: search_eq store_with_pool collect_two_profiles survives_def within_followers_def
        no_params_def mock_mode_service_def mock_score profile_a_def profile_b_def empty_document_def
        sorted_reverse_def score_key_def py_slice_def slice_index_def get_settings_def)

subsection \<open>A model that fails on a record\<close>

lemma predict_fallback:
  assumes "model ag = Some m" and "m p = None"
  shows "Market_Value_Score (predict ag p) = round_ndigits (clip (mock_rank_score p) 1 100) 2"
  using assms by (simp add: predict_def is_ready_def Let_def)

lemma augment_failing_a:
  "augment (ranking_agent failing_model_service) (profile_a\<lparr>doc_id := Some ''a''\<rparr>)
     = profile_a\<lparr>doc_id := Some ''a'', market_score := Some 50, market_tier := Some ''Scouting Target''\<rparr>"
  by (simp add: failing_model_service_def augment_def predict_def is_ready_def clip_def
      round_ndigits_def py_round_def Let_def profile_a_def empty_document_def)

lemma augment_failing_b:
  "augment (ranking_agent failing_model_service) (profile_b\<lparr>doc_id := Some ''b''\<rparr>)
     = profile_b\<lparr>doc_id := Some ''b'', market_score := Some 95, market_tier := Some ''A-List Talent''\<rparr>"
  by (simp add: failing_model_service_def augment_def predict_def is_ready_def clip_def
      mock_rank_score_def round_ndigits_def py_round_def Let_def profile_b_def empty_document_def)

lemma search_failing_model:
  "fst (search_and_filter_influencers failing_model_service no_params (store_with two_profiles []))
     = Inr [profile_b\<lparr>doc_id := Some ''b'', market_score := Some 95, market_tier := Some ''A-List Talent''\<rparr>,
            profile_a\<lparr>doc_id := Some ''a'', market_score := Some 50, market_tier := Some ''Scouting Target''\<rparr>]"
proof -
  have lim: "limit no_params = None" "DEFAULT_SEARCH_LIMIT (influencer_settings failing_model_service) = 25"
    by (simp_all add: no_params_def failing_model_service_def get_settings_def)
  have s: "survives no_params (profile_a\<lparr>doc_id := Some ''a''\<rparr>)"
          "survives no_params (profile_b\<lparr>doc_id := Some ''b''\<rparr>)"
    by (simp_all add: survives_def within_followers_def no_params_def profile_a_def profile_b_def
        empty_document_def)
  show ?thesis
    by (simp add: search_eq store_with_pool collect_two_profiles s augment_failing_a augment_failing_b
        sorted_reverse_def score_key_def py_slice_def slice_index_def lim)
qed

text \<open>
  C6, as stated, fails: the model scores the first profile and raises on the second, and the
  second is in the output all the same, ranked first with the fallback score 95.
\<close>

theorem failed_scoring_record_is_kept:
  "(\<lambda>d. if username d = Some ''bob'' then None else Some (50::rat)) (profile_a\<lparr>doc_id := Some ''a''\<rparr>) = Some 50
   \<and> (\<lambda>d. if username d = Some ''bob'' then None else Some (50::rat)) (profile_b\<lparr>doc_id := Some ''b''\<rparr>) = None
   \<and> fst (search_and_filter_influencers failing_model_service no_params (store_with two_profiles []))
     = Inr [profile_b\<lparr>doc_id := Some ''b'', market_score := Some 95, market_tier := Some ''A-List Talent''\<rparr>,
            profile_a\<lparr>doc_id := Some ''a'', market_score := Some 50, market_tier := Some ''Scouting Target''\<rparr>]"
  using search_failing_model by (simp add: profile_a_def profile_b_def empty_document_def)

text \<open>
  C6, amended. When the model raises on a surviving record, the search does not abort and the
  record is not excluded: it is scored by the fallback formula, the mock rank score clipped to
  the range from 1 to 100, and is in the output whenever the limit does not cut the survivors.
\<close>

theorem scoring_failure_falls_back:
  assumes "fst (get_collection fs INFLUENCER_COLLECTION False) = Inr pool"
      and "model (ranking_agent svc) = Some m" and "m p = None"
      and "p \<in> set pool" and "survives query p"
      and "int (length (filter (survives query) pool))
             \<le> get_default (limit query) (DEFAULT_SEARCH_LIMIT (influencer_settings svc))"
  shows "\<exists>res. fst (search_and_filter_influencers svc query fs) = Inr res
           \<and> p\<lparr>market_score := Some (round_ndigits (clip (mock_rank_score p) 1 100) 2),
                market_tier := Some (Market_Tier (predict (ranking_agent svc) p))\<rparr> \<in> set res"
proof -
  have pool: "collect (coll_stream (db fs) (get_public_collection_path fs INFLUENCER_COLLECTION)) = pool"
    using assms(1) by (simp add: get_collection_public)
  define scored where "scored = map (augment (ranking_agent svc)) (filter (survives query) pool)"
  have all: "slice_index (length scored)
              (get_default (limit query) (DEFAULT_SEARCH_LIMIT (influencer_settings svc)))
             = length scored"
    using assms(6) by (intro slice_index_all) (simp add: scored_def)
  have res: "fst (search_and_filter_influencers svc query fs) = Inr (sorted_reverse score_key scored)"
    by (simp add: search_eq pool py_slice_from_0 scored_def [symmetric] all)
  have "augment (ranking_agent svc) p \<in> set (sorted_reverse score_key scored)"
    using assms(4,5) by (simp add: scored_def)
  moreover have "augment (ranking_agent svc) p =
      p\<lparr>market_score := Some (round_ndigits (clip (mock_rank_score p) 1 100) 2),
        market_tier := Some (Market_Tier (predict (ranking_agent svc) p))\<rparr>"
    using predict_fallback [OF assms(2,3)] by (simp add: augment_def Let_def)
  ultimately show ?thesis using res by auto
qed

theorem scoring_failure_falls_back_witness:
  "fst (get_collection (store_with two_profiles []) INFLUENCER_COLLECTION False)
     = Inr [profile_a\<lparr>doc_id := Some ''a''\<rparr>, profile_b\<lparr>doc_id := Some ''b''\<rparr>]
   \<and> model (ranking_agent failing_model_service)
     = Some (\<lambda>d. if username d = Some ''bob'' then None else Some 50)
   \<and> (\<lambda>d. if username d = Some ''bob'' then None else Some (50::rat)) (profile_b\<lparr>doc_id := Some ''b''\<rparr>) = None
   \<and> survives no_params (profile_b\<lparr>doc_id := Some ''b''\<rparr>)
   \<and> (\<exists>res. fst (search_and_filter_influencers failing_model_service no_params
                    (store_with two_profiles [])) = Inr res
        \<and> profile_b\<lparr>doc_id := Some ''b'', market_score := Some 95,
                     market_tier := Some ''A-List Talent''\<rparr> \<in> set res)"
proof -
  have h1: "fst (get_collection (store_with two_profiles []) INFLUENCER_COLLECTION False)
     = Inr [profile_a\<lparr>doc_id := Some ''a''\<rparr>, profile_b\<lparr>doc_id := Some ''b''\<rparr>]"
    by (simp add: get_collection_public store_with_pool collect_two_profiles)
  have h2: "model (ranking_agent failing_model_service)
     = Some (\<lambda>d. if username d = Some ''bob'' then None else Some 50)"
    by (simp add: failing_model_service_def)
  have h3: "(\<lambda>d. if username d = Some ''bob'' then None else Some (50::rat))
              (profile_b\<lparr>doc_id := Some ''b''\<rparr>) = None"
    by (simp add: profile_b_def empty_document_def)
  have h4: "profile_b\<lparr>doc_id := Some ''b''\<rparr>
              \<in> set [profile_a\<lparr>doc_id := Some ''a''\<rparr>, profile_b\<lparr>doc_id := Some ''b''\<rparr>]"
    by simp
  have h5: "survives no_params (profile_b\<lparr>doc_id := Some ''b''\<rparr>)"
    by (simp add: survives_def within_followers_def no_params_def profile_b_def empty_document_def)
  have h6: "int (length (filter (survives no_params)
                  [profile_a\<lparr>doc_id := Some ''a''\<rparr>, profile_b\<lparr>doc_id := Some ''b''\<rparr>]))
             \<le> get_default (limit no_params)
                  (DEFAULT_SEARCH_LIMIT (influencer_settings failing_model_service))"
    by (simp add: no_params_def failing_model_service_def get_settings_def)
  have fb: "round_ndigits (clip (mock_rank_score (profile_b\<lparr>doc_id := Some ''b''\<rparr>)) 1 100) 2 = 95"
    by (simp add: mock_rank_score_def clip_def round_ndigits_def py_round_def Let_def
        profile_b_def empty_document_def)
  have tier: "Market_Tier (predict (ranking_agent failing_model_service)
                (profile_b\<lparr>doc_id := Some ''b''\<rparr>)) = ''A-List Talent''"
    by (simp add: failing_model_service_def predict_def is_ready_def clip_def mock_rank_score_def
        Let_def profile_b_def empty_document_def)
  from scoring_failure_falls_back [OF h1 h2 h3 h4 h5 h6]
  have "\<exists>res. fst (search_and_filter_influencers failing_model_service no_params
                    (store_with two_profiles [])) = Inr res
        \<and> profile_b\<lparr>doc_id := Some ''b'', market_score := Some 95,
                     market_tier := Some ''A-List Talent''\<rparr> \<in> set res"
    by (simp add: fb tier)
  with h1 h2 h3 h5 show ?thesis by blast
qed

section \<open>Alert evaluation\<close>

lemma get_collection_served [simp]:
  "fst (get_collection (served c fs) n p) = fst (get_collection fs n p)"
  by (simp add: get_collection_def served_def collection_path_def get_private_collection_path_def
      get_public_collection_path_def split: sum.splits)

lemma search_snd:
  "snd (search_and_filter_influencers svc query fs)
     = served (Stream (get_public_collection_path fs INFLUENCER_COLLECTION)) fs"
  by (simp add: search_eq)

lemma evaluate_all_alerts_skip:
  "now - last_check_time svc < of_int (ALERT_CHECK_INTERVAL_SECONDS (settings svc))
   \<Longrightarrow> evaluate_all_alerts now svc = (Inr [], svc)"
  by (simp add: evaluate_all_alerts_def)

lemma evaluate_all_alerts_run:
  assumes "\<not> now - last_check_time svc < of_int (ALERT_CHECK_INTERVAL_SECONDS (settings svc))"
      and "fst (search_and_filter_influencers (influencer_service svc) no_params (firestore svc))
             = Inr market_data"
      and "influencer_map_of market_data [] = Inr imap"
      and "fst (get_collection (firestore svc) ALERT_COLLECTION True) = Inr all_alerts"
  shows "fst (evaluate_all_alerts now svc) = Inr (evaluate_alerts imap all_alerts)"
proof -
  obtain fs1 where s: "search_and_filter_influencers (influencer_service svc) no_params (firestore svc)
      = (Inr market_data, fs1)"
    and fs1: "fs1 = served (Stream (get_public_collection_path (firestore svc) INFLUENCER_COLLECTION)) (firestore svc)"
    using assms(2) search_snd [of "influencer_service svc" no_params "firestore svc"]
    by (cases "search_and_filter_influencers (influencer_service svc) no_params (firestore svc)") simp
  have "fst (get_collection fs1 ALERT_COLLECTION True) = Inr all_alerts"
    using assms(4) by (simp add: fs1)
  then obtain fs2 where g: "get_collection fs1 ALERT_COLLECTION True = (Inr all_alerts, fs2)"
    by (cases "get_collection fs1 ALERT_COLLECTION True") simp
  show ?thesis
    using assms(1) by (simp add: evaluate_all_alerts_def Let_def s assms(3) g)
qed

lemma evaluate_all_alerts_last_check:
  "\<not> now - last_check_time svc < of_int (ALERT_CHECK_INTERVAL_SECONDS (settings svc))
   \<Longrightarrow> last_check_time (snd (evaluate_all_alerts now svc)) = now
     \<and> settings (snd (evaluate_all_alerts now svc)) = settings svc"
  by (simp add: evaluate_all_alerts_def Let_def split: prod.splits sum.splits)

lemma evaluate_alerts_append:
  "evaluate_alerts imap (xs @ ys) = evaluate_alerts imap xs @ evaluate_alerts imap ys"
  by (induction xs) simp_all

lemma scan_profiles_engagement:
  "scan_profiles rule ''min_engagement_rate'' T (map (\<lambda>p. (get_default (doc_id p) [], p)) xs)
     = (case find (engagement_qualifies rule T) xs of
          None \<Rightarrow> []
        | Some p \<Rightarrow> [triggered rule ''min_engagement_rate'' T p])"
  by (induction xs)
     (simp_all add: engagement_qualifies_def passes_niche_filter_def triggered_def Let_def)

lemma dict_set_new: "k \<notin> fst ` set d \<Longrightarrow> dict_set k v d = d @ [(k, v)]"
  by (induction d) auto

lemma influencer_map_of_distinct:
  assumes "\<forall>p\<in>set ps. doc_id p \<noteq> None" and "distinct (map doc_id ps)"
      and "\<forall>p\<in>set ps. get_default (doc_id p) [] \<notin> fst ` set d"
  shows "influencer_map_of ps d = Inr (d @ map (\<lambda>p. (get_default (doc_id p) [], p)) ps)"
  using assms
proof (induction ps arbitrary: d)
  case Nil
  then show ?case by simp
next
  case (Cons p ps)
  from Cons.prems(1) obtain i where i: "doc_id p = Some i" by auto
  have new: "i \<notin> fst ` set d" using Cons.prems(3) i by simp
  have rest: "\<forall>x\<in>set ps. get_default (doc_id x) [] \<notin> fst ` set (dict_set i p d)"
  proof
    fix x assume x: "x \<in> set ps"
    then obtain j where j: "doc_id x = Some j" using Cons.prems(1) by auto
    have "j \<noteq> i" using Cons.prems(2) x i j by (auto simp: image_iff)
    moreover have "j \<notin> fst ` set d" using Cons.prems(3) x j by force
    ultimately show "get_default (doc_id x) [] \<notin> fst ` set (dict_set i p d)"
      using new j by (simp add: dict_set_new)
  qed
  have "influencer_map_of ps (dict_set i p d)
          = Inr (dict_set i p d @ map (\<lambda>p. (get_default (doc_id p) [], p)) ps)"
    using Cons.prems(1,2) rest by (intro Cons.IH) simp_all
  then show ?case using i new by (simp add: dict_set_new)
qed

lemma collect_has_id: "x \<in> set (collect snaps) \<Longrightarrow> doc_id x \<noteq> None"
  by (induction snaps) (auto split: if_splits)

lemma doc_id_augment [simp]: "doc_id (augment ag p) = doc_id p"
  by (simp add: augment_def Let_def)

lemma qualifies_augment [simp]:
  "engagement_qualifies rule T (augment ag p) = engagement_qualifies rule T p"
  by (simp add: engagement_qualifies_def passes_niche_filter_def augment_def Let_def)

lemma distinct_map_insort:
  "distinct (map g (insort_key f x xs)) \<longleftrightarrow> g x \<notin> g ` set xs \<and> distinct (map g xs)"
  by (induction xs) (auto simp: set_insort_key)

lemma distinct_map_sort_key: "distinct (map g (sort_key f xs)) \<longleftrightarrow> distinct (map g xs)"
  by (induction xs) (auto simp: distinct_map_insort)

lemma distinct_map_sorted_reverse:
  "distinct (map g (sorted_reverse f xs)) \<longleftrightarrow> distinct (map g xs)"
  by (simp add: sorted_reverse_def rev_map [symmetric] distinct_map_sort_key del: rev_map)

subsection \<open>The example services\<close>

lemma example_service_fields [simp]:
  "last_check_time (example_alert_service ps al) = 640"
  "settings (example_alert_service ps al) = get_settings"
  "influencer_service (example_alert_service ps al) = mock_mode_service"
  "firestore (example_alert_service ps al) = store_with ps al"
  by (simp_all add: example_alert_service_def AlertService_init_def get_settings_def)

lemma example_rules:
  "fst (get_collection (store_with ps al) ALERT_COLLECTION True) = Inr (collect al)"
  by (simp add: get_collection_def collection_path_def store_with_alerts)

lemma example_pool:
  "fst (get_collection (store_with ps al) INFLUENCER_COLLECTION False) = Inr (collect ps)"
  by (simp add: get_collection_public store_with_pool)

lemma ranked_two_profiles:
  "sorted_reverse score_key (map (augment (ranking_agent mock_mode_service))
      [profile_a\<lparr>doc_id := Some ''a''\<rparr>, profile_b\<lparr>doc_id := Some ''b''\<rparr>])
   = [profile_a\<lparr>doc_id := Some ''a'', market_score := Some 95, market_tier := Some ''A-List Talent''\<rparr>,
      profile_b\<lparr>doc_id := Some ''b'', market_score := Some 95, market_tier := Some ''A-List Talent''\<rparr>]"
  by (simp add: mock_mode_service_def mock_score profile_a_def profile_b_def empty_document_def
      sorted_reverse_def score_key_def)

subsection \<open>The gate on the last check time\<close>

text \<open>
  C4. An invocation less than the interval after the last recorded check time returns the
  empty list and leaves the service as it was: the last check time is unchanged and the
  Firestore client has served no further call, so nothing was listed and no rule was scanned.
  An evaluation that runs at \<open>t1\<close> records \<open>t1\<close>, hence an invocation at \<open>t2\<close> less than the
  interval after \<open>t1\<close> is skipped: two evaluations that run are at least the interval apart.
\<close>

theorem skip_if_too_soon:
  "(now - last_check_time svc < of_int (ALERT_CHECK_INTERVAL_SECONDS (settings svc))
      \<longrightarrow> evaluate_all_alerts now svc = (Inr [], svc))
   \<and> (\<not> t1 - last_check_time svc < of_int (ALERT_CHECK_INTERVAL_SECONDS (settings svc))
        \<and> t2 - t1 < of_int (ALERT_CHECK_INTERVAL_SECONDS (settings svc))
      \<longrightarrow> evaluate_all_alerts t2 (snd (evaluate_all_alerts t1 svc))
            = (Inr [], snd (evaluate_all_alerts t1 svc)))"
proof (intro conjI impI)
  assume "now - last_check_time svc < of_int (ALERT_CHECK_INTERVAL_SECONDS (settings svc))"
  then show "evaluate_all_alerts now svc = (Inr [], svc)"
    by (rule evaluate_all_alerts_skip)
next
  assume a: "\<not> t1 - last_check_time svc < of_int (ALERT_CHECK_INTERVAL_SECONDS (settings svc))
        \<and> t2 - t1 < of_int (ALERT_CHECK_INTERVAL_SECONDS (settings svc))"
  define svc1 where "svc1 = snd (evaluate_all_alerts t1 svc)"
  have "last_check_time svc1 = t1" "settings svc1 = settings svc"
    using a evaluate_all_alerts_last_check [of t1 svc] by (simp_all add: svc1_def)
  then have "t2 - last_check_time svc1 < of_int (ALERT_CHECK_INTERVAL_SECONDS (settings svc1))"
    using a by simp
  then show "evaluate_all_alerts t2 (snd (evaluate_all_alerts t1 svc))
            = (Inr [], snd (evaluate_all_alerts t1 svc))"
    unfolding svc1_def [symmetric] by (rule evaluate_all_alerts_skip)
qed

theorem skip_if_too_soon_witness:
  "700 - last_check_time (example_alert_service two_profiles []) < 300
   \<and> evaluate_all_alerts 700 (example_alert_service two_profiles [])
       = (Inr [], example_alert_service two_profiles [])
   \<and> \<not> 1000 - last_check_time (example_alert_service two_profiles []) < 300
   \<and> evaluate_all_alerts 1100 (snd (evaluate_all_alerts 1000 (example_alert_service two_profiles [])))
       = (Inr [], snd (evaluate_all_alerts 1000 (example_alert_service two_profiles [])))"
proof -
  have i: "rat_of_int (ALERT_CHECK_INTERVAL_SECONDS (settings (example_alert_service two_profiles []))) = 300"
    by (simp add: get_settings_def)
  have a: "700 - last_check_time (example_alert_service two_profiles []) < 300" by simp
  have b: "\<not> 1000 - last_check_time (example_alert_service two_profiles []) < 300" by simp
  have c: "(1100::rat) - 1000 < 300" by simp
  from skip_if_too_soon [of 700 "example_alert_service two_profiles []" 1000 1100]
  show ?thesis using a b c unfolding i by blast
qed

subsection \<open>Rules with a falsy condition type or threshold\<close>

text \<open>
  C10. A rule whose threshold is 0, or whose condition type is the empty string, passes
  through the guard \<^verbatim>\<open>if not condition_type or not target_value: continue\<close> like a rule
  that lacks the field: it emits no alert whatever the profiles are, and the alerts of a cycle
  are those of the cycle without the rule.
\<close>

theorem falsy_threshold_rule_is_skipped:
  assumes "alert_value rule = Some 0 \<or> condition_type rule = Some []"
  shows "evaluate_alert influencer_map rule = []
       \<and> evaluate_alerts influencer_map (rs @ rule # rs') = evaluate_alerts influencer_map (rs @ rs')"
proof -
  have "evaluate_alert influencer_map rule = []"
    using assms by (auto simp: evaluate_alert_def)
  then show ?thesis by (simp add: evaluate_alerts_append)
qed

theorem falsy_threshold_rule_is_skipped_witness:
  "alert_value zero_rule = Some 0
   \<and> 0 \<le> get_default (average_engagement_rate profile_a) 0
   \<and> evaluate_alert [(''a'', profile_a)] zero_rule = []
   \<and> evaluate_alerts [(''a'', profile_a)] ([fitness_rule] @ zero_rule # [])
       = evaluate_alerts [(''a'', profile_a)] ([fitness_rule] @ [])"
proof -
  have z: "alert_value zero_rule = Some 0 \<or> condition_type zero_rule = Some []"
    by (simp add: zero_rule_def empty_document_def)
  have e: "0 \<le> get_default (average_engagement_rate profile_a) 0"
    by (simp add: profile_a_def empty_document_def)
  from falsy_threshold_rule_is_skipped [OF z, of "[(''a'', profile_a)]" "[fitness_rule]" "[]"] e
  show ?thesis by (simp add: zero_rule_def empty_document_def)
qed

subsection \<open>Rules on the minimum engagement rate\<close>

text \<open>
  C2, as stated, fails: a rule with the condition type \<^verbatim>\<open>min_engagement_rate\<close> and the
  threshold 0 emits nothing, although the profile \<^verbatim>\<open>a\<close> passes its (absent) niche filter and
  has an engagement rate of 5.2, which is at least 0.
\<close>

theorem zero_threshold_never_triggers:
  "condition_type zero_rule = Some ''min_engagement_rate''
   \<and> alert_value zero_rule = Some 0
   \<and> engagement_qualifies (zero_rule\<lparr>doc_id := Some ''r0''\<rparr>) 0 (profile_a\<lparr>doc_id := Some ''a''\<rparr>)
   \<and> fst (evaluate_all_alerts 1000
            (example_alert_service two_profiles [MockDocumentSnapshot ''r0'' zero_rule])) = Inr []"
proof -
  have md: "fst (search_and_filter_influencers
                  (influencer_service (example_alert_service two_profiles [MockDocumentSnapshot ''r0'' zero_rule]))
                  no_params
                  (firestore (example_alert_service two_profiles [MockDocumentSnapshot ''r0'' zero_rule])))
     = Inr [profile_a\<lparr>doc_id := Some ''a'', market_score := Some 95, market_tier := Some ''A-List Talent''\<rparr>,
            profile_b\<lparr>doc_id := Some ''b'', market_score := Some 95, market_tier := Some ''A-List Talent''\<rparr>]"
    by (simp add: search_eq store_with_pool collect_two_profiles survives_def within_followers_def
        no_params_def mock_mode_service_def mock_score profile_a_def profile_b_def empty_document_def
        sorted_reverse_def score_key_def py_slice_def slice_index_def get_settings_def)
  have im: "influencer_map_of
     [profile_a\<lparr>doc_id := Some ''a'', market_score := Some 95, market_tier := Some ''A-List Talent''\<rparr>,
      profile_b\<lparr>doc_id := Some ''b'', market_score := Some 95, market_tier := Some ''A-List Talent''\<rparr>] []
     = Inr [(''a'', profile_a\<lparr>doc_id := Some ''a'', market_score := Some 95, market_tier := Some ''A-List Talent''\<rparr>),
            (''b'', profile_b\<lparr>doc_id := Some ''b'', market_score := Some 95, market_tier := Some ''A-List Talent''\<rparr>)]"
    by simp
  have ru: "fst (get_collection (firestore (example_alert_service two_profiles [MockDocumentSnapshot ''r0'' zero_rule]))
               ALERT_COLLECTION True) = Inr [zero_rule\<lparr>doc_id := Some ''r0''\<rparr>]"
    by (simp add: example_rules MockDocumentSnapshot_def last_segment_def)
  have gate: "\<not> 1000 - last_check_time (example_alert_service two_profiles [MockDocumentSnapshot ''r0'' zero_rule])
      < rat_of_int (ALERT_CHECK_INTERVAL_SECONDS (settings (example_alert_service two_profiles [MockDocumentSnapshot ''r0'' zero_rule])))"
    by (simp add: get_settings_def)
  have "fst (evaluate_all_alerts 1000
            (example_alert_service two_profiles [MockDocumentSnapshot ''r0'' zero_rule])) = Inr []"
    using evaluate_all_alerts_run [OF gate md im ru]
    by (simp add: evaluate_alert_def zero_rule_def empty_document_def)
  then show ?thesis
    by (simp add: zero_rule_def profile_a_def empty_document_def engagement_qualifies_def
        passes_niche_filter_def)
qed

text \<open>
  C2, amended. Take a cycle that runs, over a pool with distinct ids and non-negative follower
  counts that fits into the default search limit, and a rule with the condition type
  \<^verbatim>\<open>min_engagement_rate\<close> and a threshold \<open>T\<close> other than 0. Between the alerts of the rules
  listed before it and those of the rules listed after it, the cycle emits for this rule one
  alert, for the first qualifying profile in descending order of score (store order among equal
  scores), when some profile of the pool qualifies, and no alert when none does.
\<close>

theorem min_engagement_rule_triggers_once:
  assumes gate: "\<not> now - last_check_time svc < of_int (ALERT_CHECK_INTERVAL_SECONDS (settings svc))"
      and pool: "fst (get_collection (firestore svc) INFLUENCER_COLLECTION False) = Inr pool"
      and rules: "fst (get_collection (firestore svc) ALERT_COLLECTION True) = Inr (rs @ rule # rs')"
      and small: "int (length pool) \<le> DEFAULT_SEARCH_LIMIT (influencer_settings (influencer_service svc))"
      and followers: "\<forall>p\<in>set pool. 0 \<le> get_default (follower_count p) 0"
      and ids: "distinct (map doc_id pool)"
      and ct: "condition_type rule = Some ''min_engagement_rate''"
      and tv: "alert_value rule = Some T" "T \<noteq> 0"
  shows "let ranked = sorted_reverse score_key
                        (map (augment (ranking_agent (influencer_service svc))) pool);
             influencer_map = map (\<lambda>p. (get_default (doc_id p) [], p)) ranked
         in fst (evaluate_all_alerts now svc)
              = Inr (evaluate_alerts influencer_map rs
                     @ (case find (engagement_qualifies rule T) ranked of
                          None \<Rightarrow> []
                        | Some p \<Rightarrow> [triggered rule ''min_engagement_rate'' T p])
                     @ evaluate_alerts influencer_map rs')
            \<and> ((\<exists>p\<in>set pool. engagement_qualifies rule T p)
                 \<longleftrightarrow> find (engagement_qualifies rule T) ranked \<noteq> None)"
proof -
  define ag where "ag = ranking_agent (influencer_service svc)"
  define ranked where "ranked = sorted_reverse score_key (map (augment ag) pool)"
  define imap where "imap = map (\<lambda>p. (get_default (doc_id p) [], p)) ranked"
  have raw: "collect (coll_stream (db (firestore svc))
               (get_public_collection_path (firestore svc) INFLUENCER_COLLECTION)) = pool"
    using pool by (simp add: get_collection_public)
  have keep: "filter (survives no_params) pool = pool"
    using followers by (auto simp: survives_def within_followers_def no_params_def intro: filter_True)
  have all: "slice_index (length pool) (get_default (limit no_params)
               (DEFAULT_SEARCH_LIMIT (influencer_settings (influencer_service svc)))) = length pool"
    using small by (intro slice_index_all) (simp add: no_params_def)
  have md: "fst (search_and_filter_influencers (influencer_service svc) no_params (firestore svc))
              = Inr ranked"
    by (simp add: search_eq raw keep py_slice_from_0 all ranked_def ag_def)
  have has_id: "\<forall>p\<in>set ranked. doc_id p \<noteq> None"
    using collect_has_id raw by (auto simp: ranked_def)
  have dist: "distinct (map doc_id ranked)"
    using ids by (simp add: ranked_def distinct_map_sorted_reverse comp_def)
  have im: "influencer_map_of ranked [] = Inr imap"
    using influencer_map_of_distinct [OF has_id dist, of "[]"] by (simp add: imap_def)
  have run: "fst (evaluate_all_alerts now svc) = Inr (evaluate_alerts imap (rs @ rule # rs'))"
    by (rule evaluate_all_alerts_run [OF gate md im rules])
  have one: "evaluate_alert imap rule
               = (case find (engagement_qualifies rule T) ranked of
                    None \<Rightarrow> []
                  | Some p \<Rightarrow> [triggered rule ''min_engagement_rate'' T p])"
    using ct tv by (simp add: evaluate_alert_def imap_def scan_profiles_engagement)
  have ex: "(\<exists>p\<in>set pool. engagement_qualifies rule T p)
              \<longleftrightarrow> find (engagement_qualifies rule T) ranked \<noteq> None"
    by (auto simp: find_None_iff ranked_def)
  show ?thesis
    using run one ex
    by (simp add: Let_def evaluate_alerts_append ranked_def [symmetric] imap_def [symmetric]
        ag_def [symmetric])
qed

theorem min_engagement_rule_triggers_once_witness:
  "\<not> 1000 - last_check_time (example_alert_service two_profiles [MockDocumentSnapshot ''r1'' fitness_rule])
       < rat_of_int (ALERT_CHECK_INTERVAL_SECONDS
           (settings (example_alert_service two_profiles [MockDocumentSnapshot ''r1'' fitness_rule])))
   \<and> condition_type (fitness_rule\<lparr>doc_id := Some ''r1''\<rparr>) = Some ''min_engagement_rate''
   \<and> alert_value (fitness_rule\<lparr>doc_id := Some ''r1''\<rparr>) = Some 3
   \<and> engagement_qualifies (fitness_rule\<lparr>doc_id := Some ''r1''\<rparr>) 3 (profile_a\<lparr>doc_id := Some ''a''\<rparr>)
   \<and> fst (evaluate_all_alerts 1000
            (example_alert_service two_profiles [MockDocumentSnapshot ''r1'' fitness_rule]))
       = Inr [\<lparr>alert_id = Some ''r1'', alert_user_id = Some ''u1'',
               message = (Some ''alice'', ''min_engagement_rate'', 3),
               triggered_on = Some ''alice'', profile_link = ''/influencers/a''\<rparr>]"
proof -
  define S where "S = example_alert_service two_profiles [MockDocumentSnapshot ''r1'' fitness_rule]"
  define R where "R = fitness_rule\<lparr>doc_id := Some ''r1''\<rparr>"
  have gate: "\<not> 1000 - last_check_time S < rat_of_int (ALERT_CHECK_INTERVAL_SECONDS (settings S))"
    by (simp add: S_def get_settings_def)
  have pool: "fst (get_collection (firestore S) INFLUENCER_COLLECTION False)
                = Inr [profile_a\<lparr>doc_id := Some ''a''\<rparr>, profile_b\<lparr>doc_id := Some ''b''\<rparr>]"
    by (simp add: S_def example_pool collect_two_profiles)
  have rules: "fst (get_collection (firestore S) ALERT_COLLECTION True) = Inr ([] @ R # [])"
    by (simp add: S_def R_def example_rules MockDocumentSnapshot_def last_segment_def)
  have small: "int (length [profile_a\<lparr>doc_id := Some ''a''\<rparr>, profile_b\<lparr>doc_id := Some ''b''\<rparr>])
                 \<le> DEFAULT_SEARCH_LIMIT (influencer_settings (influencer_service S))"
    by (simp add: S_def mock_mode_service_def get_settings_def)
  have followers: "\<forall>p\<in>set [profile_a\<lparr>doc_id := Some ''a''\<rparr>, profile_b\<lparr>doc_id := Some ''b''\<rparr>].
                     0 \<le> get_default (follower_count p) 0"
    by (simp add: profile_a_def profile_b_def empty_document_def)
  have ids: "distinct (map doc_id [profile_a\<lparr>doc_id := Some ''a''\<rparr>, profile_b\<lparr>doc_id := Some ''b''\<rparr>])"
    by simp
  have ct: "condition_type R = Some ''min_engagement_rate''"
    by (simp add: R_def fitness_rule_def empty_document_def)
  have tv: "alert_value R = Some 3" "(3::rat) \<noteq> 0"
    by (simp_all add: R_def fitness_rule_def empty_document_def)
  have qa: "engagement_qualifies R 3
              (profile_a\<lparr>doc_id := Some ''a'', market_score := Some 95, market_tier := Some ''A-List Talent''\<rparr>)"
    by (simp add: engagement_qualifies_def passes_niche_filter_def R_def fitness_rule_def
        profile_a_def empty_document_def)
  have qa': "engagement_qualifies R 3 (profile_a\<lparr>doc_id := Some ''a''\<rparr>)"
    by (simp add: engagement_qualifies_def passes_niche_filter_def R_def fitness_rule_def
        profile_a_def empty_document_def)
  have tr: "triggered R ''min_engagement_rate'' 3
              (profile_a\<lparr>doc_id := Some ''a'', market_score := Some 95, market_tier := Some ''A-List Talent''\<rparr>)
            = \<lparr>alert_id = Some ''r1'', alert_user_id = Some ''u1'',
               message = (Some ''alice'', ''min_engagement_rate'', 3),
               triggered_on = Some ''alice'', profile_link = ''/influencers/a''\<rparr>"
    by (simp add: triggered_def R_def fitness_rule_def profile_a_def empty_document_def)
  have isv: "influencer_service S = mock_mode_service" by (simp add: S_def)
  have rk: "sorted_reverse score_key
      [augment (ranking_agent mock_mode_service) (profile_a\<lparr>doc_id := Some ''a''\<rparr>),
       augment (ranking_agent mock_mode_service) (profile_b\<lparr>doc_id := Some ''b''\<rparr>)]
   = [profile_a\<lparr>doc_id := Some ''a'', market_score := Some 95, market_tier := Some ''A-List Talent''\<rparr>,
      profile_b\<lparr>doc_id := Some ''b'', market_score := Some 95, market_tier := Some ''A-List Talent''\<rparr>]"
    using ranked_two_profiles by simp
  from min_engagement_rule_triggers_once [OF gate pool rules small followers ids ct tv]
  have "fst (evaluate_all_alerts 1000 S)
       = Inr [\<lparr>alert_id = Some ''r1'', alert_user_id = Some ''u1'',
               message = (Some ''alice'', ''min_engagement_rate'', 3),
               triggered_on = Some ''alice'', profile_link = ''/influencers/a''\<rparr>]"
    by (simp add: Let_def isv rk qa tr)
  then show ?thesis using gate ct tv qa' unfolding S_def R_def by simp
qed

subsection \<open>The pool a cycle sees\<close>

lemma sorted_reverse_const:
  assumes "\<forall>x\<in>set xs. key x = c"
  shows "sorted_reverse key xs = xs"
proof -
  have "filter (\<lambda>x. key x = c) (sorted_reverse key xs) = filter (\<lambda>x. key x = c) xs"
    by (rule sorted_reverse_stable)
  moreover have "filter (\<lambda>x. key x = c) xs = xs" using assms by (simp add: filter_id_conv)
  moreover have "filter (\<lambda>x. key x = c) (sorted_reverse key xs) = sorted_reverse key xs"
    using assms by (simp add: filter_id_conv)
  ultimately show ?thesis by simp
qed

lemma dict_set_values: "snd ` set (dict_set k v d) \<subseteq> insert v (snd ` set d)"
proof (induction d)
  case Nil
  then show ?case by simp
next
  case (Cons kv d)
  obtain k' v' where kv: "kv = (k', v')" by (cases kv)
  show ?case using Cons.IH unfolding kv by (cases "k' = k") auto
qed

lemma influencer_map_of_values:
  assumes "\<forall>p\<in>set ps. doc_id p \<noteq> None"
  shows "\<exists>m. influencer_map_of ps d = Inr m \<and> snd ` set m \<subseteq> set ps \<union> snd ` set d"
  using assms
proof (induction ps arbitrary: d)
  case Nil
  then show ?case by simp
next
  case (Cons p ps)
  from Cons.prems obtain i where i: "doc_id p = Some i" by auto
  from Cons.IH [of "dict_set i p d"] Cons.prems
  obtain m where m: "influencer_map_of ps (dict_set i p d) = Inr m"
    "snd ` set m \<subseteq> set ps \<union> snd ` set (dict_set i p d)" by auto
  have "snd ` set m \<subseteq> set (p # ps) \<union> snd ` set d"
    using m(2) dict_set_values [of i p d] by auto
  then show ?case using i m(1) by simp
qed

lemma scan_profiles_none:
  assumes "\<forall>p\<in>snd ` set imap. \<not> T \<le> get_default (average_engagement_rate p) 0"
  shows "scan_profiles rule ''min_engagement_rate'' T imap = []"
  using assms by (induction imap) (auto simp: Let_def)

lemma collect_fillers:
  "x \<in> set (collect (map filler ns)) \<Longrightarrow>
     average_engagement_rate x = None \<and> Follower_Growth_Rate x = None \<and>
     Average_Engagement_Rate x = None \<and> follower_count x = None \<and> doc_id x \<noteq> None"
  by (induction ns) (auto simp: filler_def MockDocumentSnapshot_def empty_document_def)

lemma length_collect_fillers: "length (collect (map filler ns)) = length ns"
  by (induction ns) (simp_all add: filler_def MockDocumentSnapshot_def)

lemma collect_fillers25:
  "x \<in> set (collect fillers) \<Longrightarrow>
     average_engagement_rate x = None \<and> Follower_Growth_Rate x = None \<and>
     Average_Engagement_Rate x = None \<and> follower_count x = None \<and> doc_id x \<noteq> None"
  unfolding fillers_def by (rule collect_fillers)

lemma length_fillers: "length (collect fillers) = 25"
  unfolding fillers_def length_collect_fillers by simp

lemma collect_append: "collect (xs @ ys) = collect xs @ collect ys"
  by (induction xs) simp_all

lemma crowded_market_data:
  "fst (search_and_filter_influencers mock_mode_service no_params (store_with crowded_pool al))
     = Inr (map (augment \<lparr>model = None\<rparr>) (collect fillers))"
proof -
  define fs where "fs = collect fillers"
  define late where "late = late_profile\<lparr>doc_id := Some ''z''\<rparr>"
  have pool: "collect crowded_pool = fs @ [late]"
    by (simp add: crowded_pool_def collect_append fs_def late_def MockDocumentSnapshot_def
        last_segment_def)
  have len: "length fs = 25" by (simp add: fs_def length_fillers)
  have keep: "filter (survives no_params) (fs @ [late]) = fs @ [late]"
    using collect_fillers25
    by (intro filter_True)
       (auto simp: fs_def late_def survives_def within_followers_def no_params_def
          late_profile_def empty_document_def)
  have score: "\<forall>x\<in>set (map (augment \<lparr>model = None\<rparr>) (fs @ [late])). score_key x = 95"
    using collect_fillers25
    by (auto simp: fs_def late_def mock_score score_key_def late_profile_def empty_document_def)
  have sorted: "sorted_reverse score_key (map (augment \<lparr>model = None\<rparr>) (fs @ [late]))
                  = map (augment \<lparr>model = None\<rparr>) (fs @ [late])"
    by (rule sorted_reverse_const [OF score])
  have lim: "get_default (limit no_params) (DEFAULT_SEARCH_LIMIT (influencer_settings mock_mode_service)) = 25"
    by (simp add: no_params_def mock_mode_service_def get_settings_def)
  have ag: "ranking_agent mock_mode_service = \<lparr>model = None\<rparr>"
    by (simp add: mock_mode_service_def)
  have "py_slice (map (augment \<lparr>model = None\<rparr>) (fs @ [late])) 0 25 = map (augment \<lparr>model = None\<rparr>) fs"
    using len by (simp add: py_slice_from_0 slice_index_def)
  then show ?thesis
    unfolding fs_def [symmetric]
    by (simp only: search_eq store_with_pool pool keep ag sorted lim fst_conv)
qed

text \<open>
  C3. A cycle takes its profiles from \<^verbatim>\<open>search_and_filter_influencers({})\<close>, which cuts
  the ranked pool to the default search limit of 25, and it never reads \<^verbatim>\<open>is_active\<close>.
  With 26 profiles of equal score in the store, the last of which alone has the engagement
  rate 9, a rule asking for an engagement rate of at least 5 emits nothing: the qualifying
  profile is not considered. And a rule whose active flag is false emits an alert.
\<close>

theorem pool_is_truncated_and_inactive_rules_run:
  "length crowded_pool = 26
   \<and> engagement_qualifies (five_rule\<lparr>doc_id := Some ''r5''\<rparr>) 5 (late_profile\<lparr>doc_id := Some ''z''\<rparr>)
   \<and> fst (evaluate_all_alerts 1000
            (example_alert_service crowded_pool [MockDocumentSnapshot ''r5'' five_rule])) = Inr []
   \<and> is_active (inactive_rule\<lparr>doc_id := Some ''r2''\<rparr>) = Some False
   \<and> fst (evaluate_all_alerts 1000
            (example_alert_service two_profiles [MockDocumentSnapshot ''r2'' inactive_rule]))
       = Inr [\<lparr>alert_id = Some ''r2'', alert_user_id = Some ''u1'',
               message = (Some ''alice'', ''min_engagement_rate'', 3),
               triggered_on = Some ''alice'', profile_link = ''/influencers/a''\<rparr>]"
proof -
  have n: "length crowded_pool = 26" by (simp add: crowded_pool_def fillers_def)
  have q: "engagement_qualifies (five_rule\<lparr>doc_id := Some ''r5''\<rparr>) 5 (late_profile\<lparr>doc_id := Some ''z''\<rparr>)"
    by (simp add: engagement_qualifies_def passes_niche_filter_def five_rule_def late_profile_def
        empty_document_def)
  have trunc: "fst (evaluate_all_alerts 1000
            (example_alert_service crowded_pool [MockDocumentSnapshot ''r5'' five_rule])) = Inr []"
  proof -
    define S where "S = example_alert_service crowded_pool [MockDocumentSnapshot ''r5'' five_rule]"
    define md where "md = map (augment \<lparr>model = None\<rparr>) (collect fillers)"
    have gate: "\<not> 1000 - last_check_time S < rat_of_int (ALERT_CHECK_INTERVAL_SECONDS (settings S))"
      by (simp add: S_def get_settings_def)
    have m: "fst (search_and_filter_influencers (influencer_service S) no_params (firestore S)) = Inr md"
      by (simp add: S_def md_def crowded_market_data)
    have ids: "\<forall>p\<in>set md. doc_id p \<noteq> None"
      using collect_fillers25 by (auto simp: md_def)
    from influencer_map_of_values [OF ids, of "[]"]
    obtain imap where im: "influencer_map_of md [] = Inr imap" and vals: "snd ` set imap \<subseteq> set md"
      by auto
    have ru: "fst (get_collection (firestore S) ALERT_COLLECTION True)
                = Inr [five_rule\<lparr>doc_id := Some ''r5''\<rparr>]"
      by (simp add: S_def example_rules MockDocumentSnapshot_def last_segment_def)
    have low: "\<forall>p\<in>snd ` set imap. \<not> 5 \<le> get_default (average_engagement_rate p) 0"
    proof
      fix p assume "p \<in> snd ` set imap"
      then have "p \<in> set md" using vals by auto
      then obtain x where "x \<in> set (collect fillers)" "p = augment \<lparr>model = None\<rparr> x"
        by (auto simp: md_def)
      then show "\<not> 5 \<le> get_default (average_engagement_rate p) 0"
        using collect_fillers25 [of x] by (simp add: augment_def Let_def)
    qed
    have "evaluate_alert imap (five_rule\<lparr>doc_id := Some ''r5''\<rparr>) = []"
      using scan_profiles_none [OF low]
      by (simp add: evaluate_alert_def five_rule_def empty_document_def)
    then show ?thesis
      using evaluate_all_alerts_run [OF gate m im ru] by (simp add: S_def)
  qed
  have inact: "is_active (inactive_rule\<lparr>doc_id := Some ''r2''\<rparr>) = Some False"
    by (simp add: inactive_rule_def)
  have run: "fst (evaluate_all_alerts 1000
            (example_alert_service two_profiles [MockDocumentSnapshot ''r2'' inactive_rule]))
       = Inr [\<lparr>alert_id = Some ''r2'', alert_user_id = Some ''u1'',
               message = (Some ''alice'', ''min_engagement_rate'', 3),
               triggered_on = Some ''alice'', profile_link = ''/influencers/a''\<rparr>]"
  proof -
    define S where "S = example_alert_service two_profiles [MockDocumentSnapshot ''r2'' inactive_rule]"
    have gate: "\<not> 1000 - last_check_time S < rat_of_int (ALERT_CHECK_INTERVAL_SECONDS (settings S))"
      by (simp add: S_def get_settings_def)
    have m: "fst (search_and_filter_influencers (influencer_service S) no_params (firestore S))
       = Inr [profile_a\<lparr>doc_id := Some ''a'', market_score := Some 95, market_tier := Some ''A-List Talent''\<rparr>,
              profile_b\<lparr>doc_id := Some ''b'', market_score := Some 95, market_tier := Some ''A-List Talent''\<rparr>]"
      by (simp add: S_def search_eq store_with_pool collect_two_profiles survives_def within_followers_def
        no_params_def mock_mode_service_def mock_score profile_a_def profile_b_def empty_document_def
        sorted_reverse_def score_key_def py_slice_def slice_index_def get_settings_def)
    have im: "influencer_map_of
       [profile_a\<lparr>doc_id := Some ''a'', market_score := Some 95, market_tier := Some ''A-List Talent''\<rparr>,
        profile_b\<lparr>doc_id := Some ''b'', market_score := Some 95, market_tier := Some ''A-List Talent''\<rparr>] []
       = Inr [(''a'', profile_a\<lparr>doc_id := Some ''a'', market_score := Some 95, market_tier := Some ''A-List Talent''\<rparr>),
              (''b'', profile_b\<lparr>doc_id := Some ''b'', market_score := Some 95, market_tier := Some ''A-List Talent''\<rparr>)]"
      by simp
    have ru: "fst (get_collection (firestore S) ALERT_COLLECTION True)
                = Inr [inactive_rule\<lparr>doc_id := Some ''r2''\<rparr>]"
      by (simp add: S_def example_rules MockDocumentSnapshot_def last_segment_def)
    show ?thesis
      using evaluate_all_alerts_run [OF gate m im ru]
      by (simp add: S_def evaluate_alert_def inactive_rule_def fitness_rule_def profile_a_def
          empty_document_def Let_def)
  qed
  from n q trunc inact run show ?thesis by blast
qed

end
